theory Spec2Isabelle
  imports Complex_Main "HOL-Library.Sublist" "HOL-Library.AList" "HOL-Library.Multiset"
begin

section \<open>The Pokedex controller of script.js\<close>

text \<open>
  The class \<open>PokemonMaster\<close> of \<open>src/script.js\<close> holds the whole state of the page: the
  records fetched so far, the filtered records, the favourites, the page counter and the
  filter settings. Its methods are embedded as functions on an explicit state record. The
  parts of the browser the methods touch (the document, the local storage, the console, the
  network) are fields of that record or parameters of the functions.

  Conventions of the embedding:
  \<^item> JavaScript strings are modelled as \<open>string\<close>; the case conversions cover the ASCII
    letters, which is what the names served by the catalogue consist of.
  \<^item> Identifiers and the page counter are whole numbers (\<open>int\<close>, \<open>nat\<close>).
  \<^item> A method that can throw returns a completion next to the state it leaves behind.
  \<^item> The detail dialog (\<open>showPokemonDetails\<close> and its helpers) only reads the state and is
    left out.
\<close>

subsection \<open>Values, errors and completions\<close>

datatype error =
    TypeError
  | SyntaxError
  | FetchRejected
  | FailedToFetch nat
  | StorageError

text \<open>The value of a finished call: \<open>return;\<close> and falling off the end give \<open>Undefined\<close>.\<close>

datatype jsvalue = Undefined | Boolean bool

datatype completion = Normal jsvalue | Throw error

text \<open>Decoded JSON. Numbers are whole numbers, the only ones the program itself writes.\<close>

datatype json =
    JNull
  | JBool bool
  | JNum int
  | JStr string
  | JArr "json list"
  | JObj "(string \<times> json) list"

text \<open>
  The text kept in a local-storage item, described by what \<open>JSON.parse\<close> makes of it:
  the empty string, a text that is not JSON (\<open>JSON.parse\<close> throws a SyntaxError), or the
  JSON text of a value. \<open>JSON.stringify v\<close> is \<open>TextOf v\<close>.
\<close>

datatype storage_text = EmptyText | NotJson | TextOf json

subsection \<open>String built-ins\<close>

definition char_lower :: "char \<Rightarrow> char" where
  "char_lower c =
     (let n = (of_char c :: nat) in if 65 \<le> n \<and> n \<le> 90 then char_of (n + 32) else c)"

definition char_upper :: "char \<Rightarrow> char" where
  "char_upper c =
     (let n = (of_char c :: nat) in if 97 \<le> n \<and> n \<le> 122 then char_of (n - 32) else c)"

definition toLowerCase :: "string \<Rightarrow> string" where
  "toLowerCase s = map char_lower s"

text \<open>\<open>s.includes(sub)\<close>: \<open>sub\<close> occurs in \<open>s\<close> as a contiguous block.\<close>

definition includes_str :: "string \<Rightarrow> string \<Rightarrow> bool" where
  "includes_str s sub = sublist sub s"

text \<open>\<open>xs.includes(x)\<close> on an array of strings.\<close>

definition includes_arr :: "string list \<Rightarrow> string \<Rightarrow> bool" where
  "includes_arr xs x = (x \<in> set xs)"

definition digit_char :: "nat \<Rightarrow> char" where
  "digit_char d = char_of (48 + d)"

fun digits :: "nat \<Rightarrow> string" where
  "digits n = (if n < 10 then [digit_char n] else digits (n div 10) @ [digit_char (n mod 10)])"

declare digits.simps [simp del]

definition toString :: "int \<Rightarrow> string" where
  "toString i = (if i < 0 then CHR ''-'' # digits (nat (- i)) else digits (nat i))"

definition padStart :: "nat \<Rightarrow> char \<Rightarrow> string \<Rightarrow> string" where
  "padStart n c s = replicate (n - length s) c @ s"

text \<open>\<open>xs.slice(start, end)\<close> for indices that are not negative.\<close>

definition slice :: "nat \<Rightarrow> nat \<Rightarrow> 'a list \<Rightarrow> 'a list" where
  "slice start end xs = take (end - start) (drop start xs)"

text \<open>\<open>string.charAt(0).toUpperCase() + string.slice(1)\<close>\<close>

definition capitalizeFirstLetter :: "string \<Rightarrow> string" where
  "capitalizeFirstLetter s = map char_upper (take 1 s) @ drop 1 s"

subsection \<open>Records of the catalogue\<close>

text \<open>
  The decoded body of \<open>/pokemon/{id}\<close>, reduced to the fields \<open>transformPokemonData\<close>
  reads. \<open>data_types\<close> holds \<open>type.type.name\<close> of each entry, and likewise for the
  abilities, the moves and the statistics.
\<close>

record api_pokemon =
  data_id :: int
  data_name :: string
  data_types :: "string list"
  data_artwork :: "string option"
  data_front_default :: "string option"
  data_stats :: "(string \<times> int) list"
  data_height :: int
  data_weight :: int
  data_abilities :: "string list"
  data_moves :: "string list"

text \<open>
  The record built by \<open>transformPokemonData\<close>. The fields \<open>id\<close> and \<open>image\<close> of the source
  are \<open>pid\<close> and \<open>image_src\<close> here. Height and weight are kept as exact fractions.
\<close>

record pokemon =
  pid :: int
  name :: string
  displayName :: string
  number :: string
  types :: "string list"
  image_src :: "string option"
  stats :: "(string \<times> int) list"
  height :: rat
  weight :: rat
  abilities :: "string list"
  moves :: "string list"

definition transformPokemonData :: "api_pokemon \<Rightarrow> pokemon" where
  "transformPokemonData data =
     \<lparr> pid = data_id data,
       name = data_name data,
       displayName = capitalizeFirstLetter (data_name data),
       number = padStart 3 (CHR ''0'') (toString (data_id data)),
       types = data_types data,
       image_src =
         (case data_artwork data of
            None \<Rightarrow> data_front_default data
          | Some u \<Rightarrow> if u = [] then data_front_default data else Some u),
       stats = fold (\<lambda>(n, v) acc. AList.update n v acc) (data_stats data) [],
       height = of_int (data_height data) / 10,
       weight = of_int (data_weight data) / 10,
       abilities = data_abilities data,
       moves = slice 0 5 (data_moves data) \<rparr>"

text \<open>
  What the network gives for one identifier: \<open>fetch\<close> rejects, or there is a response with
  its \<open>ok\<close> flag and its body. The body is \<open>None\<close> when \<open>response.json()\<close> rejects or the
  decoded value lacks a field \<open>transformPokemonData\<close> dereferences.
\<close>

datatype response = NetworkFailure | Response bool "api_pokemon option"

definition fetchPokemonData :: "(nat \<Rightarrow> response) \<Rightarrow> nat \<Rightarrow> error + pokemon" where
  "fetchPokemonData fetch i =
     (case fetch i of
        NetworkFailure \<Rightarrow> Inl FetchRejected
      | Response ok body \<Rightarrow>
          if \<not> ok then Inl (FailedToFetch i)
          else (case body of
                  None \<Rightarrow> Inl TypeError
                | Some data \<Rightarrow> Inr (transformPokemonData data)))"

subsection \<open>The set of favourites\<close>

text \<open>
  A JavaScript \<open>Set\<close> keeps its members in insertion order and compares them with
  SameValueZero: primitives by value, arrays and objects by identity. Arrays and objects
  only enter the set from a freshly parsed text, so no two of them are the same object.
\<close>

fun sameValueZero :: "json \<Rightarrow> json \<Rightarrow> bool" where
  "sameValueZero JNull JNull = True"
| "sameValueZero (JBool a) (JBool b) = (a = b)"
| "sameValueZero (JNum a) (JNum b) = (a = b)"
| "sameValueZero (JStr a) (JStr b) = (a = b)"
| "sameValueZero _ _ = False"

definition set_has :: "json list \<Rightarrow> json \<Rightarrow> bool" where
  "set_has xs v = list_ex (\<lambda>x. sameValueZero x v) xs"

definition set_add :: "json list \<Rightarrow> json \<Rightarrow> json list" where
  "set_add xs v = (if set_has xs v then xs else xs @ [v])"

definition set_delete :: "json list \<Rightarrow> json \<Rightarrow> json list" where
  "set_delete xs v = filter (\<lambda>x. \<not> sameValueZero x v) xs"

text \<open>
  \<open>new Set(v)\<close>: \<open>null\<close> gives the empty set, an array its elements, a string its
  characters; any other value is not iterable and the constructor throws.
\<close>

definition new_Set :: "json \<Rightarrow> error + json list" where
  "new_Set v =
     (case v of
        JNull \<Rightarrow> Inr []
      | JArr xs \<Rightarrow> Inr (fold (\<lambda>x acc. set_add acc x) xs [])
      | JStr s \<Rightarrow> Inr (fold (\<lambda>c acc. set_add acc (JStr [c])) s [])
      | _ \<Rightarrow> Inl TypeError)"

subsection \<open>The state of the controller\<close>

text \<open>\<open>currentFilters\<close>: the fields \<open>search\<close>, \<open>type\<close>, \<open>sort\<close> and \<open>showFavorites\<close>.\<close>

record filters =
  f_search :: string
  f_type :: string
  f_sort :: string
  f_showFavorites :: bool

text \<open>
  A card of the grid stands for the markup \<open>createPokemonCard\<close> writes: the record it
  shows and whether it is drawn as a favourite.
\<close>

record card =
  card_pokemon :: pokemon
  card_isFavorite :: bool

text \<open>
  The fields of the object, followed by the parts of the page and of the browser its
  methods read and write: the elements \<open>getElements\<close> looks up (prefix \<open>el\<close>), the local
  storage with whether it can be read and written, and the lines of \<open>console.error\<close>.
\<close>

record master =
  pokemon :: "pokemon list"
  filteredPokemon :: "pokemon list"
  favorites :: "json list"
  currentPage :: nat
  pokemonPerPage :: nat
  isLoading :: bool
  currentFilters :: filters
  el_pokeContainer :: "card list"
  el_emptyState_show :: bool
  el_loadMore_display :: bool
  el_clearSearch_display :: bool
  el_searchInput_value :: string
  el_toggleFavorites_active :: bool
  el_totalCount :: nat
  el_showingCount :: nat
  el_favoritesCount :: nat
  el_notification :: "(string \<times> string) option"
  localStorage :: "string \<rightharpoonup> storage_text"
  storage_readable :: bool
  storage_writable :: bool
  console_errors :: "string list"

text \<open>The state the constructor builds, on a page whose controls are in their initial state.\<close>

definition constructor :: "(string \<rightharpoonup> storage_text) \<Rightarrow> bool \<Rightarrow> bool \<Rightarrow> master" where
  "constructor store readable writable =
     \<lparr> pokemon = [],
       filteredPokemon = [],
       favorites = [],
       currentPage = 1,
       pokemonPerPage = 20,
       isLoading = False,
       currentFilters = \<lparr> f_search = [], f_type = ''all'', f_sort = ''number'',
                          f_showFavorites = False \<rparr>,
       el_pokeContainer = [],
       el_emptyState_show = False,
       el_loadMore_display = False,
       el_clearSearch_display = False,
       el_searchInput_value = [],
       el_toggleFavorites_active = False,
       el_totalCount = 0,
       el_showingCount = 0,
       el_favoritesCount = 0,
       el_notification = None,
       localStorage = store,
       storage_readable = readable,
       storage_writable = writable,
       console_errors = [] \<rparr>"

subsection \<open>Statistics, notification, loading flag\<close>

definition updateStats :: "master \<Rightarrow> master" where
  "updateStats s =
     s\<lparr> el_totalCount := length (pokemon s),
        el_showingCount := length (filteredPokemon s),
        el_favoritesCount := length (favorites s) \<rparr>"

definition showNotification :: "string \<Rightarrow> string \<Rightarrow> master \<Rightarrow> master" where
  "showNotification message kind s = s\<lparr> el_notification := Some (message, kind) \<rparr>"

definition showLoading :: "master \<Rightarrow> master" where
  "showLoading s = s\<lparr> isLoading := True \<rparr>"

definition hideLoading :: "master \<Rightarrow> master" where
  "hideLoading s = s\<lparr> isLoading := False \<rparr>"

definition console_error :: "string \<Rightarrow> master \<Rightarrow> master" where
  "console_error line s = s\<lparr> console_errors := console_errors s @ [line] \<rparr>"

subsection \<open>Rendering and pagination\<close>

definition createPokemonCard :: "master \<Rightarrow> pokemon \<Rightarrow> card" where
  "createPokemonCard s p =
     \<lparr> card_pokemon = p, card_isFavorite = set_has (favorites s) (JNum (pid p)) \<rparr>"

definition renderPokemon :: "master \<Rightarrow> master" where
  "renderPokemon s =
     (let startIndex = 0;
          endIndex = currentPage s * pokemonPerPage s;
          pokemonToShow = slice startIndex endIndex (filteredPokemon s)
      in if length pokemonToShow = 0
         then s\<lparr> el_emptyState_show := True, el_pokeContainer := [] \<rparr>
         else s\<lparr> el_emptyState_show := False,
                 el_pokeContainer := map (createPokemonCard s) pokemonToShow \<rparr>)"

text \<open>
  \<open>Math.ceil(filteredPokemon.length / pokemonPerPage)\<close>. A division by zero gives
  \<open>Infinity\<close>, or \<open>NaN\<close> for \<open>0 / 0\<close>; every comparison with \<open>NaN\<close> is false.
\<close>

datatype pages = Pages nat | PagesInfinity | PagesNaN

definition totalPages :: "master \<Rightarrow> pages" where
  "totalPages s =
     (if pokemonPerPage s = 0
      then (if length (filteredPokemon s) = 0 then PagesNaN else PagesInfinity)
      else Pages ((length (filteredPokemon s) + pokemonPerPage s - 1) div pokemonPerPage s))"

fun page_ge :: "nat \<Rightarrow> pages \<Rightarrow> bool" where
  "page_ge n (Pages m) = (n \<ge> m)"
| "page_ge n PagesInfinity = False"
| "page_ge n PagesNaN = False"

fun page_less :: "nat \<Rightarrow> pages \<Rightarrow> bool" where
  "page_less n (Pages m) = (n < m)"
| "page_less n PagesInfinity = True"
| "page_less n PagesNaN = False"

definition toggleLoadMore :: "master \<Rightarrow> master" where
  "toggleLoadMore s = s\<lparr> el_loadMore_display := page_less (currentPage s) (totalPages s) \<rparr>"

definition toggleClearSearch :: "master \<Rightarrow> master" where
  "toggleClearSearch s = s\<lparr> el_clearSearch_display := (f_search (currentFilters s) \<noteq> []) \<rparr>"

definition loadMorePokemon :: "master \<Rightarrow> master" where
  "loadMorePokemon s =
     (if isLoading s then s
      else if page_ge (currentPage s) (totalPages s) then s
      else toggleLoadMore (renderPokemon (s\<lparr> currentPage := currentPage s + 1 \<rparr>)))"

subsection \<open>Filtering and sorting\<close>

text \<open>The three filter steps of \<open>applyFilters\<close>, in the order of the source.\<close>

definition searchFilter :: "filters \<Rightarrow> pokemon list \<Rightarrow> pokemon list" where
  "searchFilter cf filtered =
     (if f_search cf \<noteq> []
      then filter (\<lambda>p. includes_str (name p) (f_search cf) \<or>
                       includes_str (toLowerCase (displayName p)) (f_search cf) \<or>
                       includes_str (number p) (f_search cf)) filtered
      else filtered)"

definition typeFilter :: "filters \<Rightarrow> pokemon list \<Rightarrow> pokemon list" where
  "typeFilter cf filtered =
     (if f_type cf \<noteq> ''all''
      then filter (\<lambda>p. includes_arr (types p) (f_type cf)) filtered
      else filtered)"

definition favoritesFilter :: "filters \<Rightarrow> json list \<Rightarrow> pokemon list \<Rightarrow> pokemon list" where
  "favoritesFilter cf favs filtered =
     (if f_showFavorites cf
      then filter (\<lambda>p. set_has favs (JNum (pid p))) filtered
      else filtered)"

text \<open>
  The comparator handed to \<open>sort\<close>. \<open>lc\<close> is \<open>String.prototype.localeCompare\<close> of the
  browser. \<open>a.types[0]\<close> of an empty array is \<open>undefined\<close>, and calling a method on it
  throws; \<open>b.types[0]\<close> is only an argument, and \<open>undefined\<close> is converted to the
  string \<open>undefined\<close>.
\<close>

definition compare_pokemon ::
  "(string \<Rightarrow> string \<Rightarrow> int) \<Rightarrow> string \<Rightarrow> pokemon \<Rightarrow> pokemon \<Rightarrow> error + int" where
  "compare_pokemon lc key a b =
     (if key = ''name'' then Inr (lc (displayName a) (displayName b))
      else if key = ''type'' then
        (case types a of
           [] \<Rightarrow> Inl TypeError
         | ta # _ \<Rightarrow> Inr (lc ta (case types b of [] \<Rightarrow> ''undefined'' | tb # _ \<Rightarrow> tb)))
      else Inr (pid a - pid b))"

text \<open>
  \<open>Array.prototype.sort\<close> with a comparator is a stable sort, and the order in which it
  calls the comparator is left to the engine. The model is one stable sort, by insertion
  from the right; a comparator that throws ends it.
\<close>

fun insert_by :: "('a \<Rightarrow> 'a \<Rightarrow> error + int) \<Rightarrow> 'a \<Rightarrow> 'a list \<Rightarrow> error + 'a list" where
  "insert_by cmp x [] = Inr [x]"
| "insert_by cmp x (y # ys) =
     (case cmp x y of
        Inl e \<Rightarrow> Inl e
      | Inr c \<Rightarrow>
          if c \<le> 0 then Inr (x # y # ys)
          else (case insert_by cmp x ys of
                  Inl e \<Rightarrow> Inl e
                | Inr zs \<Rightarrow> Inr (y # zs)))"

fun sort_by :: "('a \<Rightarrow> 'a \<Rightarrow> error + int) \<Rightarrow> 'a list \<Rightarrow> error + 'a list" where
  "sort_by cmp [] = Inr []"
| "sort_by cmp (x # xs) =
     (case sort_by cmp xs of
        Inl e \<Rightarrow> Inl e
      | Inr ys \<Rightarrow> insert_by cmp x ys)"

text \<open>
  The records \<open>applyFilters\<close> computes before it stores them: the three filters, then the
  sort.
\<close>

definition filter_and_sort ::
  "(string \<Rightarrow> string \<Rightarrow> int) \<Rightarrow> pokemon list \<Rightarrow> filters \<Rightarrow> json list \<Rightarrow> error + pokemon list" where
  "filter_and_sort lc ps cf favs =
     (let filtered = ps;
          filtered = searchFilter cf filtered;
          filtered = typeFilter cf filtered;
          filtered = favoritesFilter cf favs filtered
      in sort_by (compare_pokemon lc (f_sort cf)) filtered)"

text \<open>
  \<open>applyFilters\<close>. When the comparator throws, nothing has been assigned yet and the state
  is the one before the call.
\<close>

definition applyFilters :: "(string \<Rightarrow> string \<Rightarrow> int) \<Rightarrow> master \<Rightarrow> completion \<times> master" where
  "applyFilters lc s =
     (case filter_and_sort lc (pokemon s) (currentFilters s) (favorites s) of
        Inl e \<Rightarrow> (Throw e, s)
      | Inr filtered \<Rightarrow>
          (Normal Undefined,
           toggleLoadMore (updateStats (renderPokemon
             (s\<lparr> filteredPokemon := filtered, currentPage := 1 \<rparr>)))))"

subsection \<open>Favourites and their persistence\<close>

definition favorites_key :: string where
  "favorites_key = ''pokemonMasterFavorites''"

text \<open>
  The body of the \<open>try\<close> of \<open>saveFavorites\<close>; \<open>setItem\<close> throws when the storage refuses
  the write.
\<close>

definition saveFavorites_body :: "master \<Rightarrow> completion \<times> master" where
  "saveFavorites_body s =
     (let favoriteIds = JArr (favorites s)
      in if \<not> storage_writable s then (Throw StorageError, s)
         else (Normal Undefined,
               updateStats (s\<lparr> localStorage :=
                 (localStorage s)(favorites_key \<mapsto> TextOf favoriteIds) \<rparr>)))"

definition saveFavorites :: "master \<Rightarrow> master" where
  "saveFavorites s =
     (case saveFavorites_body s of
        (Throw e, s') \<Rightarrow> console_error ''Error saving favorites:'' s'
      | (Normal v, s') \<Rightarrow> s')"

text \<open>\<open>toggleFavorite\<close> has no \<open>return\<close> statement: a call that completes gives \<open>Undefined\<close>.\<close>

definition toggleFavorite ::
  "(string \<Rightarrow> string \<Rightarrow> int) \<Rightarrow> int \<Rightarrow> master \<Rightarrow> completion \<times> master" where
  "toggleFavorite lc pokemonId s =
     (let s1 = (if set_has (favorites s) (JNum pokemonId)
                then showNotification ''Removed from favorites'' ''success''
                       (s\<lparr> favorites := set_delete (favorites s) (JNum pokemonId) \<rparr>)
                else showNotification ''Added to favorites!'' ''success''
                       (s\<lparr> favorites := set_add (favorites s) (JNum pokemonId) \<rparr>));
          s2 = saveFavorites s1
      in case applyFilters lc s2 of
           (Throw e, s3) \<Rightarrow> (Throw e, s3)
         | (Normal v, s3) \<Rightarrow> (Normal Undefined, s3))"

text \<open>
  The body of the \<open>try\<close> of \<open>loadFavorites\<close>: \<open>getItem\<close> gives \<open>null\<close> for a missing key,
  and \<open>null\<close> and the empty string are falsy.
\<close>

definition loadFavorites_body :: "master \<Rightarrow> completion \<times> master" where
  "loadFavorites_body s =
     (if \<not> storage_readable s then (Throw StorageError, s)
      else (case localStorage s favorites_key of
              None \<Rightarrow> (Normal Undefined, s)
            | Some EmptyText \<Rightarrow> (Normal Undefined, s)
            | Some NotJson \<Rightarrow> (Throw SyntaxError, s)
            | Some (TextOf favoriteIds) \<Rightarrow>
                (case new_Set favoriteIds of
                   Inl e \<Rightarrow> (Throw e, s)
                 | Inr fs \<Rightarrow> (Normal Undefined, s\<lparr> favorites := fs \<rparr>))))"

definition loadFavorites :: "master \<Rightarrow> completion \<times> master" where
  "loadFavorites s =
     (case loadFavorites_body s of
        (Throw e, s') \<Rightarrow> (Normal Undefined, console_error ''Error loading favorites:'' s')
      | (Normal v, s') \<Rightarrow> (Normal Undefined, s'))"

subsection \<open>The handlers of \<open>setupEventListeners\<close>\<close>

text \<open>
  One constructor for each listener that changes the state: typing in the search box (with
  the new content of the box), the clear button, the two select boxes (with the chosen
  value), the favourites switch, the load-more button, the Enter key (with whether the
  search box has the focus), and the heart of a card (with the identifier of its record).
\<close>

datatype event =
    SearchInput string
  | ClearSearchClick
  | TypeFilterChange string
  | SortSelectChange string
  | ToggleFavoritesClick
  | LoadMoreClick
  | KeydownEnter bool
  | FavoriteBtnClick int

definition and_then ::
  "completion \<times> master \<Rightarrow> (master \<Rightarrow> master) \<Rightarrow> completion \<times> master" where
  "and_then r f = (case r of (Throw e, s) \<Rightarrow> (Throw e, s) | (Normal v, s) \<Rightarrow> (Normal Undefined, f s))"

fun handle :: "(string \<Rightarrow> string \<Rightarrow> int) \<Rightarrow> event \<Rightarrow> master \<Rightarrow> completion \<times> master" where
  "handle lc (SearchInput v) s =
     and_then
       (applyFilters lc
          (s\<lparr> el_searchInput_value := v,
              currentFilters := (currentFilters s)\<lparr> f_search := toLowerCase v \<rparr> \<rparr>))
       toggleClearSearch"
| "handle lc ClearSearchClick s =
     and_then
       (applyFilters lc
          (s\<lparr> el_searchInput_value := [],
              currentFilters := (currentFilters s)\<lparr> f_search := [] \<rparr> \<rparr>))
       toggleClearSearch"
| "handle lc (TypeFilterChange v) s =
     applyFilters lc (s\<lparr> currentFilters := (currentFilters s)\<lparr> f_type := v \<rparr> \<rparr>)"
| "handle lc (SortSelectChange v) s =
     applyFilters lc (s\<lparr> currentFilters := (currentFilters s)\<lparr> f_sort := v \<rparr> \<rparr>)"
| "handle lc ToggleFavoritesClick s =
     (let shown = \<not> f_showFavorites (currentFilters s)
      in applyFilters lc
           (s\<lparr> currentFilters := (currentFilters s)\<lparr> f_showFavorites := shown \<rparr>,
               el_toggleFavorites_active := shown \<rparr>))"
| "handle lc LoadMoreClick s = (Normal Undefined, loadMorePokemon s)"
| "handle lc (KeydownEnter inSearch) s =
     (if \<not> inSearch then (Normal Undefined, loadMorePokemon s) else (Normal Undefined, s))"
| "handle lc (FavoriteBtnClick pokemonId) s = toggleFavorite lc pokemonId s"

text \<open>The events whose handler assigns a field of \<open>currentFilters\<close>.\<close>

fun changes_filters :: "event \<Rightarrow> bool" where
  "changes_filters (SearchInput v) = True"
| "changes_filters ClearSearchClick = True"
| "changes_filters (TypeFilterChange v) = True"
| "changes_filters (SortSelectChange v) = True"
| "changes_filters ToggleFavoritesClick = True"
| "changes_filters LoadMoreClick = False"
| "changes_filters (KeydownEnter inSearch) = False"
| "changes_filters (FavoriteBtnClick pokemonId) = False"

subsection \<open>Loading the catalogue\<close>

text \<open>The identifiers of one batch: \<open>for (let j = i; j < i + batchSize && j <= totalPokemon; j++)\<close>.\<close>

definition batch_ids :: "nat \<Rightarrow> nat \<Rightarrow> nat \<Rightarrow> nat list" where
  "batch_ids totalPokemon batchSize i = takeWhile (\<lambda>j. j \<le> totalPokemon) [i ..< i + batchSize]"

text \<open>
  \<open>Promise.allSettled\<close> keeps the order of the requests; the fulfilled results are
  filtered out and their values taken.
\<close>

definition successfulPokemon :: "(error + pokemon) list \<Rightarrow> pokemon list" where
  "successfulPokemon batchResults = map projr (filter (\<lambda>result. \<not> isl result) batchResults)"

text \<open>
  The records of the identifiers from \<open>i\<close> up to, not including, \<open>j\<close> whose request
  succeeds, in the order of the identifiers.
\<close>

definition fetched :: "(nat \<Rightarrow> response) \<Rightarrow> nat \<Rightarrow> nat \<Rightarrow> pokemon list" where
  "fetched fetch i j = successfulPokemon (map (fetchPokemonData fetch) [i ..< j])"

text \<open>
  The \<open>for\<close> loop over the batches, from the counter \<open>i\<close> on. It gives the state it ends in,
  with the error when \<open>applyFilters\<close> threw, and \<open>None\<close> when it does not end. The two
  constants of the source, \<open>totalPokemon\<close> and \<open>batchSize\<close>, are parameters.
\<close>

partial_function (option) load_batches ::
  "(nat \<Rightarrow> response) \<Rightarrow> (string \<Rightarrow> string \<Rightarrow> int) \<Rightarrow> nat \<Rightarrow> nat \<Rightarrow> nat \<Rightarrow> master
     \<Rightarrow> (completion \<times> master) option" where
  "load_batches fetch lc totalPokemon batchSize i s =
     (if i \<le> totalPokemon then
        (let batch = map (fetchPokemonData fetch) (batch_ids totalPokemon batchSize i);
             s1 = updateStats (s\<lparr> pokemon := pokemon s @ successfulPokemon batch \<rparr>)
         in if i = 1 then
              (case applyFilters lc s1 of
                 (Throw e, s2) \<Rightarrow> Some (Throw e, s2)
               | (Normal v, s2) \<Rightarrow> load_batches fetch lc totalPokemon batchSize (i + batchSize) s2)
            else load_batches fetch lc totalPokemon batchSize (i + batchSize) s1)
      else Some (Normal Undefined, s))"

text \<open>The accented word of the messages, in UTF-8.\<close>

definition pokemon_word :: string where
  "pokemon_word = ''Pok'' @ [CHR 0xC3, CHR 0xA9] @ ''mon''"

text \<open>\<open>loadPokemon\<close> with its two constants as parameters: \<open>try\<close>, \<open>catch\<close> and \<open>finally\<close>.\<close>

definition loadPokemonWith ::
  "(nat \<Rightarrow> response) \<Rightarrow> (string \<Rightarrow> string \<Rightarrow> int) \<Rightarrow> nat \<Rightarrow> nat \<Rightarrow> master
     \<Rightarrow> (completion \<times> master) option" where
  "loadPokemonWith fetch lc totalPokemon batchSize s =
     (case load_batches fetch lc totalPokemon batchSize 1 (showLoading s) of
        None \<Rightarrow> None
      | Some (Throw e, s') \<Rightarrow>
          Some (Normal Undefined,
                hideLoading (showNotification (''Error loading '' @ pokemon_word @ '' data'') ''error''
                  (console_error (''Error loading '' @ pokemon_word @ '':'') s')))
      | Some (Normal v, s') \<Rightarrow> Some (Normal Undefined, hideLoading s'))"

definition loadPokemon ::
  "(nat \<Rightarrow> response) \<Rightarrow> (string \<Rightarrow> string \<Rightarrow> int) \<Rightarrow> master \<Rightarrow> (completion \<times> master) option" where
  "loadPokemon fetch lc s = loadPokemonWith fetch lc 151 20 s"

text \<open>
  \<open>init\<close>, started by the constructor: the favourites are loaded, then the catalogue, and
  the success notification is shown.
\<close>

definition init ::
  "(nat \<Rightarrow> response) \<Rightarrow> (string \<Rightarrow> string \<Rightarrow> int) \<Rightarrow> master \<Rightarrow> (completion \<times> master) option" where
  "init fetch lc s =
     (case loadPokemon fetch lc (snd (loadFavorites s)) of
        None \<Rightarrow> None
      | Some (c, s') \<Rightarrow>
          Some (Normal Undefined,
                showNotification (''Pok'' @ [CHR 0xC3, CHR 0xA9] @ ''dex loaded successfully!'')
                  ''success'' s'))"

section \<open>Sample data\<close>

text \<open>Two entries of the catalogue, as the service sends them, and the records made of them.\<close>

definition bulbasaur_data :: api_pokemon where
  "bulbasaur_data =
     \<lparr> data_id = 1, data_name = ''bulbasaur'', data_types = [''grass'', ''poison''],
       data_artwork = Some ''artwork/1.png'', data_front_default = Some ''sprites/1.png'',
       data_stats = [(''hp'', 45), (''attack'', 49)], data_height = 7, data_weight = 69,
       data_abilities = [''overgrow'', ''chlorophyll''],
       data_moves = [''razor-wind'', ''swords-dance'', ''cut'', ''bind'', ''vine-whip'',
                     ''headbutt''] \<rparr>"

definition pikachu_data :: api_pokemon where
  "pikachu_data =
     \<lparr> data_id = 25, data_name = ''pikachu'', data_types = [''electric''],
       data_artwork = None, data_front_default = Some ''sprites/25.png'',
       data_stats = [(''hp'', 35), (''attack'', 55)], data_height = 4, data_weight = 60,
       data_abilities = [''static''],
       data_moves = [''mega-punch''] \<rparr>"

definition bulbasaur :: pokemon where
  "bulbasaur = transformPokemonData bulbasaur_data"

definition pikachu :: pokemon where
  "pikachu = transformPokemonData pikachu_data"

text \<open>A comparison of strings by character codes, standing in for \<open>localeCompare\<close>.\<close>

fun compare_codes :: "string \<Rightarrow> string \<Rightarrow> int" where
  "compare_codes [] [] = 0"
| "compare_codes [] (y # ys) = - 1"
| "compare_codes (x # xs) [] = 1"
| "compare_codes (x # xs) (y # ys) =
     (if (of_char x :: nat) < of_char y then - 1
      else if (of_char y :: nat) < of_char x then 1
      else compare_codes xs ys)"

text \<open>The state after construction, with an empty storage that can be read and written.\<close>

definition fresh :: master where
  "fresh = constructor Map.empty True True"

definition with_filters :: "string \<Rightarrow> string \<Rightarrow> string \<Rightarrow> bool \<Rightarrow> filters" where
  "with_filters q t k fav = \<lparr> f_search = q, f_type = t, f_sort = k, f_showFavorites = fav \<rparr>"

text \<open>
  A plain entry for every identifier, the same entry without a type, and the records made
  of the first \<open>n\<close> of each.
\<close>

definition sample_payload :: "nat \<Rightarrow> api_pokemon" where
  "sample_payload i =
     \<lparr> data_id = int i, data_name = ''mon'', data_types = [''normal''],
       data_artwork = None, data_front_default = None, data_stats = [],
       data_height = 10, data_weight = 10, data_abilities = [], data_moves = [] \<rparr>"

definition untyped_payload :: "nat \<Rightarrow> api_pokemon" where
  "untyped_payload i = (sample_payload i)\<lparr> data_types := [] \<rparr>"

definition sample_records :: "nat \<Rightarrow> pokemon list" where
  "sample_records n = map (\<lambda>i. transformPokemonData (sample_payload i)) [1 ..< Suc n]"

definition untyped_records :: "nat \<Rightarrow> pokemon list" where
  "untyped_records n = map (\<lambda>i. transformPokemonData (untyped_payload i)) [1 ..< Suc n]"

text \<open>
  Four networks: every request answered, every request answered by an entry without a
  type, every request but the one for 13 answered, and no request answered.
\<close>

definition fetch_all :: "nat \<Rightarrow> response" where
  "fetch_all i = Response True (Some (sample_payload i))"




section \<open>Properties\<close>

subsection \<open>The sort\<close>

lemma insert_by_Cons_Inr:
  assumes "insert_by cmp x (y # ys) = Inr zs"
  obtains c where "cmp x y = Inr c" "c \<le> 0" "zs = x # y # ys"
  | c ws where "cmp x y = Inr c" "\<not> c \<le> 0" "insert_by cmp x ys = Inr ws" "zs = y # ws"
proof (cases "cmp x y")
  case (Inl e)
  with assms show ?thesis by simp
next
  case (Inr c)
  show ?thesis
  proof (cases "c \<le> 0")
    case True
    with Inr assms that(1) show ?thesis by simp
  next
    case False
    show ?thesis
    proof (cases "insert_by cmp x ys")
      case (Inl e)
      with Inr False assms show ?thesis by simp
    next
      case (Inr ws)
      with \<open>cmp x y = Inr c\<close> False assms that(2) show ?thesis by simp
    qed
  qed
qed

lemma insert_by_mset: "insert_by cmp x ys = Inr zs \<Longrightarrow> mset zs = add_mset x (mset ys)"
proof (induction ys arbitrary: zs)
  case Nil
  then show ?case by simp
next
  case (Cons y ys)
  from Cons.prems show ?case
  proof (cases rule: insert_by_Cons_Inr)
    case (1 c)
    then show ?thesis by simp
  next
    case (2 c ws)
    with Cons.IH [of ws] show ?thesis by simp
  qed
qed

lemma sort_by_mset: "sort_by cmp xs = Inr ys \<Longrightarrow> mset ys = mset xs"
proof (induction xs arbitrary: ys)
  case Nil
  then show ?case by simp
next
  case (Cons x xs)
  then obtain ws where ws: "sort_by cmp xs = Inr ws" "insert_by cmp x ws = Inr ys"
    by (cases "sort_by cmp xs") simp_all
  with Cons.IH [of ws] insert_by_mset [of cmp x ws ys] show ?case by simp
qed

lemma sort_by_set: "sort_by cmp xs = Inr ys \<Longrightarrow> set ys = set xs"
  using sort_by_mset [of cmp xs ys] mset_eq_setD by blast

lemma sort_by_length: "sort_by cmp xs = Inr ys \<Longrightarrow> length ys = length xs"
  using sort_by_mset [of cmp xs ys] mset_eq_length by blast

subsection \<open>What \<open>applyFilters\<close> leaves alone\<close>

lemma view_updates_keep [simp]:
  "pokemon (toggleLoadMore s) = pokemon s"
  "filteredPokemon (toggleLoadMore s) = filteredPokemon s"
  "favorites (toggleLoadMore s) = favorites s"
  "currentPage (toggleLoadMore s) = currentPage s"
  "currentFilters (toggleLoadMore s) = currentFilters s"
  "pokemon (updateStats s) = pokemon s"
  "filteredPokemon (updateStats s) = filteredPokemon s"
  "favorites (updateStats s) = favorites s"
  "currentPage (updateStats s) = currentPage s"
  "currentFilters (updateStats s) = currentFilters s"
  "pokemon (renderPokemon s) = pokemon s"
  "filteredPokemon (renderPokemon s) = filteredPokemon s"
  "favorites (renderPokemon s) = favorites s"
  "currentPage (renderPokemon s) = currentPage s"
  "currentFilters (renderPokemon s) = currentFilters s"
  by (simp_all add: toggleLoadMore_def updateStats_def renderPokemon_def Let_def)

lemma applyFilters_Normal:
  assumes "applyFilters lc s = (Normal v, s')"
  shows "filter_and_sort lc (pokemon s) (currentFilters s) (favorites s) = Inr (filteredPokemon s')"
    and "currentPage s' = 1" and "pokemon s' = pokemon s"
    and "currentFilters s' = currentFilters s" and "favorites s' = favorites s"
    and "v = Undefined"
  using assms
  by (cases "filter_and_sort lc (pokemon s) (currentFilters s) (favorites s)";
      simp add: applyFilters_def; fastforce)+

lemma typeFilter_subset: "set (typeFilter cf ps) \<subseteq> set ps"
  by (auto simp: typeFilter_def)

lemma favoritesFilter_subset: "set (favoritesFilter cf fv ps) \<subseteq> set ps"
  by (auto simp: favoritesFilter_def)

lemma searchFilter_subset: "set (searchFilter cf ps) \<subseteq> set ps"
  by (auto simp: searchFilter_def)

lemma filter_and_sort_set:
  "filter_and_sort lc ps cf fv = Inr out \<Longrightarrow>
   set out = set (favoritesFilter cf fv (typeFilter cf (searchFilter cf ps)))"
  by (simp add: filter_and_sort_def Let_def sort_by_set)

subsection \<open>The search filter\<close>

lemma searchFilter_matches:
  "f_search cf \<noteq> [] \<Longrightarrow> p \<in> set (searchFilter cf ps) \<Longrightarrow>
     sublist (f_search cf) (name p) \<or> sublist (f_search cf) (toLowerCase (displayName p)) \<or>
     sublist (f_search cf) (number p)"
  by (auto simp: searchFilter_def includes_str_def)

text \<open>
  C2. When the search text is not empty, every record that the search step of
  \<open>applyFilters\<close> keeps, and so every record of the filtered set a completed call
  stores, has the text as a contiguous part of its name, of its display name in lower
  case, or of its padded number.
\<close>

theorem applyFilters_search_sound:
  assumes "f_search (currentFilters s) \<noteq> []"
    and "p \<in> set (searchFilter (currentFilters s) (pokemon s)) \<or>
         (applyFilters lc s = (Normal v, s') \<and> p \<in> set (filteredPokemon s'))"
  shows "sublist (f_search (currentFilters s)) (name p) \<or>
         sublist (f_search (currentFilters s)) (toLowerCase (displayName p)) \<or>
         sublist (f_search (currentFilters s)) (number p)"
proof -
  have "p \<in> set (searchFilter (currentFilters s) (pokemon s))"
  proof (rule disjE [OF assms(2)])
    assume "p \<in> set (searchFilter (currentFilters s) (pokemon s))"
    then show ?thesis .
  next
    assume fin: "applyFilters lc s = (Normal v, s') \<and> p \<in> set (filteredPokemon s')"
    then have "p \<in> set (favoritesFilter (currentFilters s) (favorites s)
                 (typeFilter (currentFilters s) (searchFilter (currentFilters s) (pokemon s))))"
      using filter_and_sort_set [OF applyFilters_Normal(1)] by blast
    then show ?thesis
      using favoritesFilter_subset typeFilter_subset by blast
  qed
  with assms(1) show ?thesis by (rule searchFilter_matches)
qed

theorem applyFilters_search_sound_witness:
  "f_search (with_filters ''saur'' ''all'' ''number'' False) \<noteq> [] \<and>
   searchFilter (with_filters ''saur'' ''all'' ''number'' False) [bulbasaur, pikachu] = [bulbasaur] \<and>
   searchFilter (with_filters ''02'' ''all'' ''number'' False) [bulbasaur, pikachu] = [pikachu] \<and>
   (sublist ''saur'' (name bulbasaur) \<or> sublist ''saur'' (toLowerCase (displayName bulbasaur)) \<or>
    sublist ''saur'' (number bulbasaur))"
proof -
  let ?s = "fresh\<lparr> pokemon := [bulbasaur, pikachu],
                    currentFilters := with_filters ''saur'' ''all'' ''number'' False \<rparr>"
  have q: "f_search (currentFilters ?s) = ''saur''"
    by (simp add: with_filters_def)
  have kept: "searchFilter (with_filters ''saur'' ''all'' ''number'' False) [bulbasaur, pikachu]
                = [bulbasaur]"
    by code_simp
  have kept2: "searchFilter (with_filters ''02'' ''all'' ''number'' False) [bulbasaur, pikachu]
                = [pikachu]"
    by code_simp
  have h1: "f_search (currentFilters ?s) \<noteq> []"
    by (simp add: with_filters_def)
  have h2: "bulbasaur \<in> set (searchFilter (currentFilters ?s) (pokemon ?s)) \<or>
            (applyFilters compare_codes ?s = (Normal Undefined, ?s) \<and>
             bulbasaur \<in> set (filteredPokemon ?s))"
    by (simp add: kept)
  from applyFilters_search_sound [OF h1 h2] kept kept2 show ?thesis
    by (simp add: with_filters_def)
qed

subsection \<open>The type filter\<close>

lemma typeFilter_member:
  "f_type cf \<noteq> ''all'' \<Longrightarrow> p \<in> set (typeFilter cf ps) \<Longrightarrow> f_type cf \<in> set (types p)"
  by (auto simp: typeFilter_def includes_arr_def)

text \<open>
  C7. When the type filter is not \<open>all\<close>, every record that the type step of
  \<open>applyFilters\<close> keeps, and so every record of the filtered set a completed call
  stores, has the chosen value among its types, as the very same string.
\<close>

theorem applyFilters_type_sound:
  assumes "f_type (currentFilters s) \<noteq> ''all''"
    and "p \<in> set (typeFilter (currentFilters s) ps) \<or>
         (applyFilters lc s = (Normal v, s') \<and> p \<in> set (filteredPokemon s'))"
  shows "f_type (currentFilters s) \<in> set (types p)"
proof (rule disjE [OF assms(2)])
  assume "p \<in> set (typeFilter (currentFilters s) ps)"
  with assms(1) show ?thesis by (rule typeFilter_member)
next
  assume fin: "applyFilters lc s = (Normal v, s') \<and> p \<in> set (filteredPokemon s')"
  then have "p \<in> set (favoritesFilter (currentFilters s) (favorites s)
               (typeFilter (currentFilters s) (searchFilter (currentFilters s) (pokemon s))))"
    using filter_and_sort_set [OF applyFilters_Normal(1)] by blast
  then have "p \<in> set (typeFilter (currentFilters s) (searchFilter (currentFilters s) (pokemon s)))"
    using favoritesFilter_subset by blast
  with assms(1) show ?thesis by (rule typeFilter_member)
qed

theorem applyFilters_type_sound_witness:
  "f_type (with_filters [] ''poison'' ''number'' False) \<noteq> ''all'' \<and>
   typeFilter (with_filters [] ''poison'' ''number'' False) [bulbasaur, pikachu] = [bulbasaur] \<and>
   typeFilter (with_filters [] ''Poison'' ''number'' False) [bulbasaur, pikachu] = [] \<and>
   ''poison'' \<in> set (types bulbasaur)"
proof -
  let ?s = "fresh\<lparr> pokemon := [bulbasaur, pikachu],
                    currentFilters := with_filters [] ''poison'' ''number'' False \<rparr>"
  have kept: "typeFilter (with_filters [] ''poison'' ''number'' False) [bulbasaur, pikachu]
                = [bulbasaur]"
    by code_simp
  have kept2: "typeFilter (with_filters [] ''Poison'' ''number'' False) [bulbasaur, pikachu] = []"
    by code_simp
  have h1: "f_type (currentFilters ?s) \<noteq> ''all''"
    by (simp add: with_filters_def)
  have h2: "bulbasaur \<in> set (typeFilter (currentFilters ?s) [bulbasaur, pikachu]) \<or>
            (applyFilters compare_codes ?s = (Normal Undefined, ?s) \<and>
             bulbasaur \<in> set (filteredPokemon ?s))"
    by (simp add: kept)
  from applyFilters_type_sound [OF h1 h2] kept kept2 show ?thesis
    by (simp add: with_filters_def)
qed

subsection \<open>When the comparator throws\<close>

lemma compare_pokemon_Inl:
  "compare_pokemon lc key a b = Inl e \<Longrightarrow> e = TypeError \<and> key = ''type'' \<and> types a = []"
  by (simp add: compare_pokemon_def split: if_splits list.splits)

lemma compare_pokemon_typed:
  "types a \<noteq> [] \<Longrightarrow> \<exists>c. compare_pokemon lc key a b = Inr c"
  by (cases "types a") (simp_all add: compare_pokemon_def)

lemma insert_by_Inl:
  "insert_by cmp x ys = Inl e \<Longrightarrow> \<exists>y \<in> set ys. cmp x y = Inl e"
proof (induction ys)
  case Nil
  then show ?case by simp
next
  case (Cons y ys)
  show ?case
  proof (cases "cmp x y")
    case (Inl e')
    with Cons.prems show ?thesis by simp
  next
    case (Inr c)
    show ?thesis
    proof (cases "c \<le> 0")
      case True
      with Inr Cons.prems show ?thesis by simp
    next
      case False
      with Inr Cons.prems have "insert_by cmp x ys = Inl e"
        by (cases "insert_by cmp x ys") simp_all
      with Cons.IH show ?thesis by simp
    qed
  qed
qed

lemma sort_by_Inl:
  "sort_by cmp xs = Inl e \<Longrightarrow> \<exists>x \<in> set xs. \<exists>y \<in> set xs. cmp x y = Inl e"
proof (induction xs)
  case Nil
  then show ?case by simp
next
  case (Cons x xs)
  show ?case
  proof (cases "sort_by cmp xs")
    case (Inl e')
    with Cons.prems have "sort_by cmp xs = Inl e" by simp
    with Cons.IH show ?thesis by auto
  next
    case (Inr ws)
    with Cons.prems have "insert_by cmp x ws = Inl e" by simp
    then obtain y where "y \<in> set ws" "cmp x y = Inl e"
      using insert_by_Inl [of cmp x ws e] by blast
    moreover have "set ws = set xs" using Inr by (rule sort_by_set)
    ultimately show ?thesis by auto
  qed
qed

lemma filter_and_sort_Inl:
  assumes "filter_and_sort lc ps cf fv = Inl e"
  shows "e = TypeError \<and> f_sort cf = ''type'' \<and> (\<exists>p \<in> set ps. types p = [])"
proof -
  let ?kept = "favoritesFilter cf fv (typeFilter cf (searchFilter cf ps))"
  from assms have "sort_by (compare_pokemon lc (f_sort cf)) ?kept = Inl e"
    by (simp add: filter_and_sort_def Let_def)
  then obtain a b where ab: "a \<in> set ?kept" "compare_pokemon lc (f_sort cf) a b = Inl e"
    using sort_by_Inl [of "compare_pokemon lc (f_sort cf)" ?kept e] by blast
  from ab(1) have "a \<in> set ps"
    using favoritesFilter_subset typeFilter_subset searchFilter_subset by blast
  with compare_pokemon_Inl [OF ab(2)] show ?thesis by blast
qed

lemma applyFilters_fst:
  "fst (applyFilters lc s) =
     (case filter_and_sort lc (pokemon s) (currentFilters s) (favorites s) of
        Inl e \<Rightarrow> Throw e | Inr out \<Rightarrow> Normal Undefined)"
  by (simp add: applyFilters_def split: sum.splits)

lemma applyFilters_Throw:
  "fst (applyFilters lc s) = Throw e \<Longrightarrow>
     filter_and_sort lc (pokemon s) (currentFilters s) (favorites s) = Inl e \<and> applyFilters lc s = (Throw e, s)"
  by (simp add: applyFilters_def split: sum.splits)

lemma applyFilters_typed:
  assumes typed: "list_all (\<lambda>p. types p \<noteq> []) (pokemon s)"
  shows "fst (applyFilters lc s) = Normal Undefined"
proof (cases "filter_and_sort lc (pokemon s) (currentFilters s) (favorites s)")
  case (Inl e')
  from filter_and_sort_Inl [OF Inl] typed have False
    by (auto simp: list_all_iff)
  then show ?thesis ..
next
  case (Inr out)
  then show ?thesis by (simp add: applyFilters_fst)
qed

text \<open>
  C10. Sorting by type compares the first type of two records. When every record of the
  full set has at least one type, \<open>applyFilters\<close> completes whatever the filter settings
  are, and the comparator reads the first type of both of its arguments. When
  \<open>applyFilters\<close> throws, the error is the TypeError of the comparator: the sort key is
  \<open>type\<close> and some record of the full set has no type.
\<close>

theorem applyFilters_only_error:
  "(list_all (\<lambda>p. types p \<noteq> []) (pokemon s) \<longrightarrow> fst (applyFilters lc s) = Normal Undefined) \<and>
   (types a \<noteq> [] \<and> types b \<noteq> [] \<longrightarrow>
      compare_pokemon lc ''type'' a b = Inr (lc (hd (types a)) (hd (types b)))) \<and>
   (fst (applyFilters lc s) = Throw e \<longrightarrow>
      e = TypeError \<and> f_sort (currentFilters s) = ''type'' \<and>
      list_ex (\<lambda>p. types p = []) (pokemon s))"
proof (intro conjI impI)
  assume "list_all (\<lambda>p. types p \<noteq> []) (pokemon s)"
  then show "fst (applyFilters lc s) = Normal Undefined"
    by (rule applyFilters_typed)
next
  assume "types a \<noteq> [] \<and> types b \<noteq> []"
  then show "compare_pokemon lc ''type'' a b = Inr (lc (hd (types a)) (hd (types b)))"
    by (cases "types a"; cases "types b") (simp_all add: compare_pokemon_def)
next
  assume thrown: "fst (applyFilters lc s) = Throw e"
  from filter_and_sort_Inl [OF conjunct1 [OF applyFilters_Throw [OF thrown]]]
  show "e = TypeError" and "f_sort (currentFilters s) = ''type''"
    and "list_ex (\<lambda>p. types p = []) (pokemon s)"
    by (simp_all add: list_ex_iff)
qed

theorem applyFilters_only_error_witness:
  "list_all (\<lambda>p. types p \<noteq> []) [bulbasaur, pikachu] \<and>
   fst (applyFilters compare_codes
          (fresh\<lparr> pokemon := [bulbasaur, pikachu],
                  currentFilters := with_filters [] ''all'' ''type'' False \<rparr>)) = Normal Undefined \<and>
   filteredPokemon (snd (applyFilters compare_codes
          (fresh\<lparr> pokemon := [bulbasaur, pikachu],
                  currentFilters := with_filters [] ''all'' ''type'' False \<rparr>))) = [pikachu, bulbasaur] \<and>
   fst (applyFilters compare_codes
          (fresh\<lparr> pokemon := untyped_records 2,
                  currentFilters := with_filters [] ''all'' ''type'' False \<rparr>)) = Throw TypeError \<and>
   list_ex (\<lambda>p. types p = []) (untyped_records 2)"
proof -
  let ?typed = "fresh\<lparr> pokemon := [bulbasaur, pikachu],
                        currentFilters := with_filters [] ''all'' ''type'' False \<rparr>"
  let ?untyped = "fresh\<lparr> pokemon := untyped_records 2,
                          currentFilters := with_filters [] ''all'' ''type'' False \<rparr>"
  have typed: "list_all (\<lambda>p. types p \<noteq> []) [bulbasaur, pikachu]"
    by code_simp
  then have "list_all (\<lambda>p. types p \<noteq> []) (pokemon ?typed)"
    by simp
  with applyFilters_only_error [of ?typed compare_codes bulbasaur pikachu TypeError]
  have completes: "fst (applyFilters compare_codes ?typed) = Normal Undefined"
    by blast
  have sorted: "filteredPokemon (snd (applyFilters compare_codes ?typed)) = [pikachu, bulbasaur]"
    by code_simp
  have thrown: "fst (applyFilters compare_codes ?untyped) = Throw TypeError"
    by code_simp
  with applyFilters_only_error [of ?untyped compare_codes bulbasaur pikachu TypeError]
  have "list_ex (\<lambda>p. types p = []) (pokemon ?untyped)"
    by blast
  then have "list_ex (\<lambda>p. types p = []) (untyped_records 2)"
    by simp
  with typed completes sorted thrown show ?thesis
    by blast
qed

subsection \<open>Determinism and idempotence of \<open>applyFilters\<close>\<close>

lemma applyFilters_again:
  "applyFilters lc (snd (applyFilters lc s)) = applyFilters lc s"
proof (cases "filter_and_sort lc (pokemon s) (currentFilters s) (favorites s)")
  case (Inl e)
  then show ?thesis by (simp add: applyFilters_def)
next
  case (Inr out)
  then show ?thesis
    by (simp add: applyFilters_def toggleLoadMore_def updateStats_def renderPokemon_def
        createPokemonCard_def totalPages_def Let_def)
qed

text \<open>
  C6. The completion of \<open>applyFilters\<close> and the filtered set it stores are determined by
  the records, the filter settings and the favourites: they are the value of
  \<open>filter_and_sort\<close> on these three, so two states that agree on them get the same
  filtered set. A second call right after the first gives the same completion and the same
  state, filtered set included.
\<close>

theorem applyFilters_deterministic_idempotent:
  "(case filter_and_sort lc (pokemon s) (currentFilters s) (favorites s) of
      Inl e \<Rightarrow> applyFilters lc s = (Throw e, s)
    | Inr out \<Rightarrow> fst (applyFilters lc s) = Normal Undefined \<and>
                 filteredPokemon (snd (applyFilters lc s)) = out) \<and>
   (pokemon s = pokemon t \<and> currentFilters s = currentFilters t \<and> favorites s = favorites t \<longrightarrow>
      fst (applyFilters lc s) = fst (applyFilters lc t) \<and>
      (fst (applyFilters lc s) = Normal Undefined \<longrightarrow>
         filteredPokemon (snd (applyFilters lc s)) = filteredPokemon (snd (applyFilters lc t)))) \<and>
   applyFilters lc (snd (applyFilters lc s)) = applyFilters lc s"
proof (intro conjI impI)
  show "case filter_and_sort lc (pokemon s) (currentFilters s) (favorites s) of
      Inl e \<Rightarrow> applyFilters lc s = (Throw e, s)
    | Inr out \<Rightarrow> fst (applyFilters lc s) = Normal Undefined \<and>
                 filteredPokemon (snd (applyFilters lc s)) = out"
    by (simp add: applyFilters_def split: sum.splits)
next
  assume same: "pokemon s = pokemon t \<and> currentFilters s = currentFilters t \<and>
                favorites s = favorites t"
  then show "fst (applyFilters lc s) = fst (applyFilters lc t)"
    by (simp add: applyFilters_fst)
  assume "fst (applyFilters lc s) = Normal Undefined"
  with same show "filteredPokemon (snd (applyFilters lc s)) =
                  filteredPokemon (snd (applyFilters lc t))"
    by (simp add: applyFilters_def split: sum.splits)
next
  show "applyFilters lc (snd (applyFilters lc s)) = applyFilters lc s"
    by (rule applyFilters_again)
qed

theorem applyFilters_deterministic_idempotent_witness:
  "filteredPokemon (snd (applyFilters compare_codes
      (fresh\<lparr> pokemon := [pikachu, bulbasaur] \<rparr>))) = [bulbasaur, pikachu] \<and>
   filteredPokemon (snd (applyFilters compare_codes
      (fresh\<lparr> pokemon := [pikachu, bulbasaur], currentPage := 3, isLoading := True \<rparr>)))
     = [bulbasaur, pikachu] \<and>
   applyFilters compare_codes (snd (applyFilters compare_codes
      (fresh\<lparr> pokemon := [pikachu, bulbasaur] \<rparr>)))
     = applyFilters compare_codes (fresh\<lparr> pokemon := [pikachu, bulbasaur] \<rparr>)"
proof -
  let ?s = "fresh\<lparr> pokemon := [pikachu, bulbasaur] \<rparr>"
  let ?t = "fresh\<lparr> pokemon := [pikachu, bulbasaur], currentPage := 3, isLoading := True \<rparr>"
  note fact = applyFilters_deterministic_idempotent [of compare_codes ?s ?t]
  have out: "filteredPokemon (snd (applyFilters compare_codes ?s)) = [bulbasaur, pikachu]"
    by code_simp
  have ok: "fst (applyFilters compare_codes ?s) = Normal Undefined"
    by code_simp
  have same: "pokemon ?s = pokemon ?t \<and> currentFilters ?s = currentFilters ?t \<and>
              favorites ?s = favorites ?t"
    by simp
  from fact same ok
  have "filteredPokemon (snd (applyFilters compare_codes ?s)) =
        filteredPokemon (snd (applyFilters compare_codes ?t))"
    by blast
  moreover from fact
  have "applyFilters compare_codes (snd (applyFilters compare_codes ?s)) =
        applyFilters compare_codes ?s"
    by blast
  ultimately show ?thesis using out by simp
qed

subsection \<open>Pagination\<close>

lemma renderPokemon_container:
  "map card_pokemon (el_pokeContainer (renderPokemon s)) =
     take (currentPage s * pokemonPerPage s) (filteredPokemon s)"
  by (simp add: renderPokemon_def slice_def Let_def createPokemonCard_def comp_def)

lemma totalPages_20:
  "pokemonPerPage s = 20 \<Longrightarrow> totalPages s = Pages ((length (filteredPokemon s) + 19) div 20)"
  by (simp add: totalPages_def)

lemma loadMorePokemon_last:
  "pokemonPerPage s = 20 \<Longrightarrow> (length (filteredPokemon s) + 19) div 20 \<le> currentPage s \<Longrightarrow>
     loadMorePokemon s = s"
  by (simp add: loadMorePokemon_def totalPages_20)

lemma loadMorePokemon_advance:
  assumes "\<not> isLoading s" and "\<not> page_ge (currentPage s) (totalPages s)"
  shows "loadMorePokemon s = toggleLoadMore (renderPokemon (s\<lparr> currentPage := currentPage s + 1 \<rparr>))"
  using assms by (simp add: loadMorePokemon_def)

text \<open>
  C3. With twenty records to a page, \<open>renderPokemon\<close> shows the first
  \<open>currentPage * 20\<close> records of the filtered set, a prefix that grows with the page.
  \<open>loadMorePokemon\<close> changes nothing when the page counter has reached the number of
  pages, the filtered length divided by twenty and rounded up; otherwise, when no load is
  running, it shows the prefix of the next page. With 45 filtered records the pages 1, 2
  and 3 show 20, 40 and 45 records, and asking for more on page 3 leaves the 45 in place.
\<close>

theorem renderPokemon_prefix:
  assumes per: "pokemonPerPage s = 20"
  shows "map card_pokemon (el_pokeContainer (renderPokemon s)) =
           take (currentPage s * 20) (filteredPokemon s) \<and>
         ((length (filteredPokemon s) + 19) div 20 \<le> currentPage s \<longrightarrow> loadMorePokemon s = s) \<and>
         (\<not> isLoading s \<and> currentPage s < (length (filteredPokemon s) + 19) div 20 \<longrightarrow>
            currentPage (loadMorePokemon s) = currentPage s + 1 \<and>
            map card_pokemon (el_pokeContainer (loadMorePokemon s)) =
              take ((currentPage s + 1) * 20) (filteredPokemon s)) \<and>
         (length (filteredPokemon s) = 45 \<longrightarrow>
            length (el_pokeContainer (renderPokemon (s\<lparr> currentPage := 1 \<rparr>))) = 20 \<and>
            length (el_pokeContainer (renderPokemon (s\<lparr> currentPage := 2 \<rparr>))) = 40 \<and>
            length (el_pokeContainer (renderPokemon (s\<lparr> currentPage := 3 \<rparr>))) = 45 \<and>
            loadMorePokemon (renderPokemon (s\<lparr> currentPage := 3 \<rparr>)) =
              renderPokemon (s\<lparr> currentPage := 3 \<rparr>))"
proof (intro conjI impI)
  show "map card_pokemon (el_pokeContainer (renderPokemon s)) =
          take (currentPage s * 20) (filteredPokemon s)"
    using renderPokemon_container [of s] per by simp
next
  assume "(length (filteredPokemon s) + 19) div 20 \<le> currentPage s"
  with per show "loadMorePokemon s = s" by (rule loadMorePokemon_last)
next
  assume adv: "\<not> isLoading s \<and> currentPage s < (length (filteredPokemon s) + 19) div 20"
  with per have step: "loadMorePokemon s =
      toggleLoadMore (renderPokemon (s\<lparr> currentPage := currentPage s + 1 \<rparr>))"
    by (simp add: loadMorePokemon_advance totalPages_20)
  then show "currentPage (loadMorePokemon s) = currentPage s + 1"
    by simp
  have "el_pokeContainer (loadMorePokemon s) =
        el_pokeContainer (renderPokemon (s\<lparr> currentPage := currentPage s + 1 \<rparr>))"
    by (simp add: step toggleLoadMore_def)
  then show "map card_pokemon (el_pokeContainer (loadMorePokemon s)) =
          take ((currentPage s + 1) * 20) (filteredPokemon s)"
    using renderPokemon_container [of "s\<lparr> currentPage := currentPage s + 1 \<rparr>"] per by simp
next
  assume len: "length (filteredPokemon s) = 45"
  have shown: "length (el_pokeContainer (renderPokemon (s\<lparr> currentPage := k \<rparr>))) = min 45 (k * 20)" for k
  proof -
    have "length (map card_pokemon (el_pokeContainer (renderPokemon (s\<lparr> currentPage := k \<rparr>)))) =
          length (take (k * 20) (filteredPokemon s))"
      using renderPokemon_container [of "s\<lparr> currentPage := k \<rparr>"] per by simp
    with len show ?thesis by simp
  qed
  show "length (el_pokeContainer (renderPokemon (s\<lparr> currentPage := 1 \<rparr>))) = 20"
    using shown [of 1] by simp
  show "length (el_pokeContainer (renderPokemon (s\<lparr> currentPage := 2 \<rparr>))) = 40"
    using shown [of 2] by simp
  show "length (el_pokeContainer (renderPokemon (s\<lparr> currentPage := 3 \<rparr>))) = 45"
    using shown [of 3] by simp
  show "loadMorePokemon (renderPokemon (s\<lparr> currentPage := 3 \<rparr>)) =
          renderPokemon (s\<lparr> currentPage := 3 \<rparr>)"
    using per len
    by (intro loadMorePokemon_last) (simp_all add: renderPokemon_def Let_def)
qed

theorem renderPokemon_prefix_witness:
  "pokemonPerPage (fresh\<lparr> filteredPokemon := sample_records 45 \<rparr>) = 20 \<and>
   length (filteredPokemon (fresh\<lparr> filteredPokemon := sample_records 45 \<rparr>)) = 45 \<and>
   length (el_pokeContainer (renderPokemon (fresh\<lparr> filteredPokemon := sample_records 45 \<rparr>))) = 20 \<and>
   length (el_pokeContainer (loadMorePokemon (renderPokemon
     (fresh\<lparr> filteredPokemon := sample_records 45 \<rparr>)))) = 40 \<and>
   length (el_pokeContainer (renderPokemon
     (fresh\<lparr> filteredPokemon := sample_records 45, currentPage := 3 \<rparr>))) = 45 \<and>
   loadMorePokemon (renderPokemon (fresh\<lparr> filteredPokemon := sample_records 45, currentPage := 3 \<rparr>))
     = renderPokemon (fresh\<lparr> filteredPokemon := sample_records 45, currentPage := 3 \<rparr>)"
proof -
  let ?s = "fresh\<lparr> filteredPokemon := sample_records 45 \<rparr>"
  have per: "pokemonPerPage ?s = 20"
    by (simp add: fresh_def constructor_def)
  have len: "length (filteredPokemon ?s) = 45"
    by (simp add: sample_records_def)
  have one: "?s\<lparr> currentPage := 1 \<rparr> = ?s"
    by (simp add: fresh_def constructor_def)
  have per': "pokemonPerPage (renderPokemon ?s) = 20"
    by (simp add: fresh_def constructor_def renderPokemon_def Let_def)
  have go: "\<not> isLoading (renderPokemon ?s) \<and>
            currentPage (renderPokemon ?s) < (length (filteredPokemon (renderPokemon ?s)) + 19) div 20"
    by (simp add: sample_records_def) (simp add: fresh_def constructor_def renderPokemon_def Let_def)
  from renderPokemon_prefix [OF per'] go
  have "map card_pokemon (el_pokeContainer (loadMorePokemon (renderPokemon ?s))) =
        take ((currentPage (renderPokemon ?s) + 1) * 20) (filteredPokemon (renderPokemon ?s))"
    by blast
  then have "length (map card_pokemon (el_pokeContainer (loadMorePokemon (renderPokemon ?s)))) =
        length (take ((currentPage (renderPokemon ?s) + 1) * 20) (filteredPokemon (renderPokemon ?s)))"
    by simp
  then have two: "length (el_pokeContainer (loadMorePokemon (renderPokemon ?s))) = 40"
    by (simp add: sample_records_def) (simp add: fresh_def constructor_def)
  from renderPokemon_prefix [OF per] len one two per show ?thesis
    by simp
qed

subsection \<open>The page counter\<close>

lemma and_then_Normal:
  "and_then r f = (Normal v, s') \<Longrightarrow> \<exists>w s''. r = (Normal w, s'') \<and> s' = f s''"
  by (cases r; cases "fst r") (auto simp: and_then_def)

lemma toggleClearSearch_page [simp]: "currentPage (toggleClearSearch s) = currentPage s"
  by (simp add: toggleClearSearch_def)

lemma handle_filter_change_page:
  assumes "changes_filters ev" and "handle lc ev s = (Normal v, s')"
  shows "currentPage s' = 1"
proof (cases ev)
  case (SearchInput q)
  with assms(2) obtain w s'' where
    "applyFilters lc (s\<lparr> el_searchInput_value := q,
        currentFilters := (currentFilters s)\<lparr> f_search := toLowerCase q \<rparr> \<rparr>) = (Normal w, s'')"
    "s' = toggleClearSearch s''"
    using and_then_Normal by fastforce
  then show ?thesis using applyFilters_Normal(2) by simp
next
  case ClearSearchClick
  with assms(2) obtain w s'' where
    "applyFilters lc (s\<lparr> el_searchInput_value := [],
        currentFilters := (currentFilters s)\<lparr> f_search := [] \<rparr> \<rparr>) = (Normal w, s'')"
    "s' = toggleClearSearch s''"
    using and_then_Normal by fastforce
  then show ?thesis using applyFilters_Normal(2) by simp
next
  case (TypeFilterChange t)
  with assms(2) show ?thesis using applyFilters_Normal(2) by simp
next
  case (SortSelectChange k)
  with assms(2) show ?thesis using applyFilters_Normal(2) by simp
next
  case ToggleFavoritesClick
  with assms(2) show ?thesis using applyFilters_Normal(2) by (simp add: Let_def)
qed (use assms(1) in simp_all)

lemma and_then_fst:
  "fst r = Normal Undefined \<Longrightarrow> fst (and_then r f) = Normal Undefined"
  by (cases r) (simp add: and_then_def)

lemma handle_filter_change_typed:
  assumes "changes_filters ev" and "list_all (\<lambda>p. types p \<noteq> []) (pokemon s)"
  shows "fst (handle lc ev s) = Normal Undefined"
proof -
  have ok: "pokemon t = pokemon s \<Longrightarrow> fst (applyFilters lc t) = Normal Undefined" for t
    using applyFilters_typed [of t lc] assms(2) by simp
  show ?thesis
  proof (cases ev)
    case (SearchInput q)
    then show ?thesis
      using ok [of "s\<lparr> el_searchInput_value := q,
        currentFilters := (currentFilters s)\<lparr> f_search := toLowerCase q \<rparr> \<rparr>"]
      by (simp add: and_then_fst)
  next
    case ClearSearchClick
    then show ?thesis
      using ok [of "s\<lparr> el_searchInput_value := [],
        currentFilters := (currentFilters s)\<lparr> f_search := [] \<rparr> \<rparr>"]
      by (simp add: and_then_fst)
  next
    case (TypeFilterChange t)
    then show ?thesis by (simp add: ok)
  next
    case (SortSelectChange k)
    then show ?thesis by (simp add: ok)
  next
    case ToggleFavoritesClick
    then show ?thesis by (simp add: ok Let_def)
  qed (use assms(1) in simp_all)
qed

text \<open>
  C8, as amended. A handler that changes a field of \<open>currentFilters\<close> and whose
  \<open>applyFilters\<close> completes leaves the page counter at 1, and it does complete when every
  record has a type. \<open>loadMorePokemon\<close> on a page that is not the last adds one to the
  page counter and leaves the records, the filtered set, the filters and the favourites as
  they are, provided no load is running; while \<open>isLoading\<close> is set it changes nothing.
\<close>

theorem currentPage_reset_and_advance:
  "(changes_filters ev \<and> handle lc ev s = (Normal v, s') \<longrightarrow> currentPage s' = 1) \<and>
   (changes_filters ev \<and> list_all (\<lambda>p. types p \<noteq> []) (pokemon s) \<longrightarrow>
      fst (handle lc ev s) = Normal Undefined \<and> currentPage (snd (handle lc ev s)) = 1) \<and>
   (\<not> isLoading s \<and> \<not> page_ge (currentPage s) (totalPages s) \<longrightarrow>
      currentPage (loadMorePokemon s) = currentPage s + 1 \<and>
      pokemon (loadMorePokemon s) = pokemon s \<and>
      filteredPokemon (loadMorePokemon s) = filteredPokemon s \<and>
      currentFilters (loadMorePokemon s) = currentFilters s \<and>
      favorites (loadMorePokemon s) = favorites s) \<and>
   (isLoading s \<longrightarrow> loadMorePokemon s = s)"
proof (intro conjI impI)
  assume "changes_filters ev \<and> handle lc ev s = (Normal v, s')"
  then show "currentPage s' = 1"
    using handle_filter_change_page by blast
next
  assume typed: "changes_filters ev \<and> list_all (\<lambda>p. types p \<noteq> []) (pokemon s)"
  then show ok: "fst (handle lc ev s) = Normal Undefined"
    using handle_filter_change_typed by blast
  then have "handle lc ev s = (Normal Undefined, snd (handle lc ev s))"
    by (metis prod.collapse)
  with typed show "currentPage (snd (handle lc ev s)) = 1"
    using handle_filter_change_page by blast
next
  assume adv: "\<not> isLoading s \<and> \<not> page_ge (currentPage s) (totalPages s)"
  then have step: "loadMorePokemon s =
      toggleLoadMore (renderPokemon (s\<lparr> currentPage := currentPage s + 1 \<rparr>))"
    by (simp add: loadMorePokemon_advance)
  show "currentPage (loadMorePokemon s) = currentPage s + 1"
    and "pokemon (loadMorePokemon s) = pokemon s"
    and "filteredPokemon (loadMorePokemon s) = filteredPokemon s"
    and "currentFilters (loadMorePokemon s) = currentFilters s"
    and "favorites (loadMorePokemon s) = favorites s"
    by (simp_all add: step)
next
  assume "isLoading s"
  then show "loadMorePokemon s = s"
    by (simp add: loadMorePokemon_def)
qed

theorem currentPage_reset_and_advance_witness:
  "changes_filters (SortSelectChange ''name'') \<and>
   list_all (\<lambda>p. types p \<noteq> []) [pikachu, bulbasaur] \<and>
   fst (handle compare_codes (SortSelectChange ''name'')
          (fresh\<lparr> pokemon := [pikachu, bulbasaur], currentPage := 2 \<rparr>)) = Normal Undefined \<and>
   currentPage (snd (handle compare_codes (SortSelectChange ''name'')
          (fresh\<lparr> pokemon := [pikachu, bulbasaur], currentPage := 2 \<rparr>))) = 1 \<and>
   currentPage (loadMorePokemon (fresh\<lparr> filteredPokemon := sample_records 45 \<rparr>)) = 2 \<and>
   currentPage (loadMorePokemon (fresh\<lparr> filteredPokemon := sample_records 45, isLoading := True \<rparr>)) = 1"
proof -
  let ?s = "fresh\<lparr> pokemon := [pikachu, bulbasaur], currentPage := 2 \<rparr>"
  let ?p = "fresh\<lparr> filteredPokemon := sample_records 45 \<rparr>"
  let ?b = "fresh\<lparr> filteredPokemon := sample_records 45, isLoading := True \<rparr>"
  have typed: "list_all (\<lambda>p. types p \<noteq> []) [pikachu, bulbasaur]"
    by code_simp
  then have h: "changes_filters (SortSelectChange ''name'') \<and>
                list_all (\<lambda>p. types p \<noteq> []) (pokemon ?s)"
    by simp
  from currentPage_reset_and_advance [of "SortSelectChange ''name''" compare_codes ?s] h
  have reset: "fst (handle compare_codes (SortSelectChange ''name'') ?s) = Normal Undefined \<and>
               currentPage (snd (handle compare_codes (SortSelectChange ''name'') ?s)) = 1"
    by blast
  have "\<not> isLoading ?p \<and> \<not> page_ge (currentPage ?p) (totalPages ?p)"
    by (simp add: fresh_def constructor_def totalPages_def sample_records_def)
  with currentPage_reset_and_advance [of LoadMoreClick compare_codes ?p]
  have "currentPage (loadMorePokemon ?p) = currentPage ?p + 1"
    by blast
  then have adv: "currentPage (loadMorePokemon ?p) = 2"
    by (simp add: fresh_def constructor_def)
  have "isLoading ?b"
    by simp
  with currentPage_reset_and_advance [of LoadMoreClick compare_codes ?b]
  have "loadMorePokemon ?b = ?b"
    by blast
  then have busy: "currentPage (loadMorePokemon ?b) = 1"
    by (simp add: fresh_def constructor_def)
  from typed reset adv busy show ?thesis
    by simp
qed

text \<open>
  The claim as first stated fails in two states. While the catalogue is loading,
  \<open>loadMorePokemon\<close> on page 1 of 3 leaves the counter at 1. And when the records have no
  type, choosing the sort key \<open>type\<close> on page 2 throws in the comparator and the counter
  stays at 2.
\<close>

theorem currentPage_reset_and_advance_counterexample:
  "\<not> page_ge (currentPage (fresh\<lparr> filteredPokemon := sample_records 45, isLoading := True \<rparr>))
              (totalPages (fresh\<lparr> filteredPokemon := sample_records 45, isLoading := True \<rparr>)) \<and>
   currentPage (loadMorePokemon (fresh\<lparr> filteredPokemon := sample_records 45, isLoading := True \<rparr>))
     = currentPage (fresh\<lparr> filteredPokemon := sample_records 45, isLoading := True \<rparr>) \<and>
   changes_filters (SortSelectChange ''type'') \<and>
   currentPage (snd (handle compare_codes (SortSelectChange ''type'')
      (fresh\<lparr> pokemon := untyped_records 25, filteredPokemon := untyped_records 25,
              currentPage := 2 \<rparr>))) = 2"
proof (intro conjI)
  show "\<not> page_ge (currentPage (fresh\<lparr> filteredPokemon := sample_records 45, isLoading := True \<rparr>))
              (totalPages (fresh\<lparr> filteredPokemon := sample_records 45, isLoading := True \<rparr>))"
    by (simp add: fresh_def constructor_def totalPages_def sample_records_def)
  show "currentPage (loadMorePokemon (fresh\<lparr> filteredPokemon := sample_records 45, isLoading := True \<rparr>))
     = currentPage (fresh\<lparr> filteredPokemon := sample_records 45, isLoading := True \<rparr>)"
    by (simp add: loadMorePokemon_def)
  show "changes_filters (SortSelectChange ''type'')"
    by simp
  show "currentPage (snd (handle compare_codes (SortSelectChange ''type'')
      (fresh\<lparr> pokemon := untyped_records 25, filteredPokemon := untyped_records 25,
              currentPage := 2 \<rparr>))) = 2"
    by code_simp
qed

subsection \<open>Toggling a favourite\<close>









lemma applyFilters_keeps:
  "favorites (snd (applyFilters lc s)) = favorites s"
  "localStorage (snd (applyFilters lc s)) = localStorage s"
  "el_notification (snd (applyFilters lc s)) = el_notification s"
  "console_errors (snd (applyFilters lc s)) = console_errors s"
  "pokemon (snd (applyFilters lc s)) = pokemon s"
  "currentFilters (snd (applyFilters lc s)) = currentFilters s"
  "isLoading (snd (applyFilters lc s)) = isLoading s"
  by (simp_all add: applyFilters_def toggleLoadMore_def updateStats_def renderPokemon_def Let_def
      split: sum.splits)












subsection \<open>Loading the favourites\<close>

lemma loadFavorites_fst: "fst (loadFavorites s) = Normal Undefined"
  by (simp add: loadFavorites_def split: prod.splits completion.splits)

lemma console_error_favorites [simp]: "favorites (console_error line s) = favorites s"
  by (simp add: console_error_def)

lemma loadFavorites_favorites:
  "favorites (snd (loadFavorites s)) =
     (if \<not> storage_readable s then favorites s
      else case localStorage s favorites_key of
             None \<Rightarrow> favorites s
           | Some EmptyText \<Rightarrow> favorites s
           | Some NotJson \<Rightarrow> favorites s
           | Some (TextOf v) \<Rightarrow> (case new_Set v of Inl e \<Rightarrow> favorites s | Inr fs \<Rightarrow> fs))"
  by (simp add: loadFavorites_def loadFavorites_body_def
      split: option.splits storage_text.splits sum.splits)

text \<open>
  C9, as amended. \<open>loadFavorites\<close> never throws. It leaves the favourites as they are,
  empty after construction, when the storage cannot be read, when there is no item or an
  empty one under the favourites key, when the item is not JSON, and when it is the JSON
  text of a boolean, a number or an object. The text of \<open>null\<close> gives the empty set. The
  text of an array gives the set of its elements, whatever they are, and the text of a
  string gives the set of its characters.
\<close>

theorem loadFavorites_startup:
  "fst (loadFavorites s) = Normal Undefined \<and>
   favorites (constructor store readable writable) = [] \<and>
   (\<not> storage_readable s \<or> localStorage s favorites_key = None \<or>
    localStorage s favorites_key = Some EmptyText \<or>
    localStorage s favorites_key = Some NotJson \<or>
    localStorage s favorites_key = Some (TextOf (JBool b)) \<or>
    localStorage s favorites_key = Some (TextOf (JNum n)) \<or>
    localStorage s favorites_key = Some (TextOf (JObj kvs))
      \<longrightarrow> favorites (snd (loadFavorites s)) = favorites s) \<and>
   (storage_readable s \<and> localStorage s favorites_key = Some (TextOf JNull)
      \<longrightarrow> favorites (snd (loadFavorites s)) = []) \<and>
   (storage_readable s \<and> localStorage s favorites_key = Some (TextOf (JArr xs))
      \<longrightarrow> favorites (snd (loadFavorites s)) = fold (\<lambda>x acc. set_add acc x) xs []) \<and>
   (storage_readable s \<and> localStorage s favorites_key = Some (TextOf (JStr t))
      \<longrightarrow> favorites (snd (loadFavorites s)) = fold (\<lambda>c acc. set_add acc (JStr [c])) t [])"
proof (intro conjI impI)
  show "fst (loadFavorites s) = Normal Undefined"
    by (rule loadFavorites_fst)
  show "favorites (constructor store readable writable) = []"
    by (simp add: constructor_def)
next
  assume "\<not> storage_readable s \<or> localStorage s favorites_key = None \<or>
    localStorage s favorites_key = Some EmptyText \<or>
    localStorage s favorites_key = Some NotJson \<or>
    localStorage s favorites_key = Some (TextOf (JBool b)) \<or>
    localStorage s favorites_key = Some (TextOf (JNum n)) \<or>
    localStorage s favorites_key = Some (TextOf (JObj kvs))"
  then show "favorites (snd (loadFavorites s)) = favorites s"
    by (auto simp: loadFavorites_favorites new_Set_def)
next
  assume "storage_readable s \<and> localStorage s favorites_key = Some (TextOf JNull)"
  then show "favorites (snd (loadFavorites s)) = []"
    by (simp add: loadFavorites_favorites new_Set_def)
next
  assume "storage_readable s \<and> localStorage s favorites_key = Some (TextOf (JArr xs))"
  then show "favorites (snd (loadFavorites s)) = fold (\<lambda>x acc. set_add acc x) xs []"
    by (simp add: loadFavorites_favorites new_Set_def)
next
  assume "storage_readable s \<and> localStorage s favorites_key = Some (TextOf (JStr t))"
  then show "favorites (snd (loadFavorites s)) = fold (\<lambda>c acc. set_add acc (JStr [c])) t []"
    by (simp add: loadFavorites_favorites new_Set_def)
qed

theorem loadFavorites_startup_witness:
  "favorites (snd (loadFavorites (constructor Map.empty True True))) = [] \<and>
   favorites (snd (loadFavorites (constructor [favorites_key \<mapsto> NotJson] True True))) = [] \<and>
   console_errors (snd (loadFavorites (constructor [favorites_key \<mapsto> NotJson] True True))) =
     [''Error loading favorites:''] \<and>
   favorites (snd (loadFavorites (constructor [favorites_key \<mapsto> TextOf (JNum 5)] True True))) = [] \<and>
   favorites (snd (loadFavorites
     (constructor [favorites_key \<mapsto> TextOf (JArr [JNum 1, JNum 7, JNum 1])] True True))) =
     [JNum 1, JNum 7]"
proof -
  let ?none = "constructor Map.empty True True"
  let ?bad = "constructor [favorites_key \<mapsto> NotJson] True True"
  let ?num = "constructor [favorites_key \<mapsto> TextOf (JNum 5)] True True"
  let ?ids = "constructor [favorites_key \<mapsto> TextOf (JArr [JNum 1, JNum 7, JNum 1])] True True"
  have "localStorage ?none favorites_key = None"
    by (simp add: constructor_def)
  with loadFavorites_startup [of ?none Map.empty True True True 0 "[]" "[]" "[]"]
  have none: "favorites (snd (loadFavorites ?none)) = []"
    by simp
  have "localStorage ?bad favorites_key = Some NotJson"
    by (simp add: constructor_def)
  with loadFavorites_startup [of ?bad "[favorites_key \<mapsto> NotJson]" True True True 0 "[]" "[]" "[]"]
  have bad: "favorites (snd (loadFavorites ?bad)) = []"
    by simp
  have logged: "console_errors (snd (loadFavorites ?bad)) = [''Error loading favorites:'']"
    by code_simp
  have "localStorage ?num favorites_key = Some (TextOf (JNum 5))"
    by (simp add: constructor_def)
  with loadFavorites_startup [of ?num "[favorites_key \<mapsto> TextOf (JNum 5)]" True True True 5 "[]" "[]" "[]"]
  have num: "favorites (snd (loadFavorites ?num)) = []"
    by simp
  have "storage_readable ?ids \<and>
        localStorage ?ids favorites_key = Some (TextOf (JArr [JNum 1, JNum 7, JNum 1]))"
    by (simp add: constructor_def)
  with loadFavorites_startup [of ?ids Map.empty True True True 0 "[]" "[JNum 1, JNum 7, JNum 1]" "[]"]
  have "favorites (snd (loadFavorites ?ids)) =
        fold (\<lambda>x acc. set_add acc x) [JNum 1, JNum 7, JNum 1] []"
    by blast
  also have "\<dots> = [JNum 1, JNum 7]"
    by code_simp
  finally have ids: "favorites (snd (loadFavorites ?ids)) = [JNum 1, JNum 7]" .
  from none bad logged num ids show ?thesis
    by simp
qed

text \<open>
  The claim as first stated fails for two items that are not the text of an array of
  identifiers: the text of the string \<open>abc\<close> gives a set of three one-character strings,
  and the text of the array of \<open>x\<close> and \<open>null\<close> gives a set with these two members.
\<close>

theorem loadFavorites_startup_counterexample:
  "favorites (snd (loadFavorites
     (constructor [favorites_key \<mapsto> TextOf (JStr ''abc'')] True True))) =
     [JStr ''a'', JStr ''b'', JStr ''c''] \<and>
   favorites (snd (loadFavorites
     (constructor [favorites_key \<mapsto> TextOf (JArr [JStr ''x'', JNull])] True True))) =
     [JStr ''x'', JNull]"
  by code_simp

subsection \<open>The loop over the batches\<close>

lemma takeWhile_le_upt: "takeWhile (\<lambda>j. j \<le> t) [i ..< k] = [i ..< min k (Suc t)]"
proof (induction k)
  case 0
  then show ?case by simp
next
  case (Suc k)
  show ?case
  proof (cases "i \<le> k")
    case False
    then show ?thesis by simp
  next
    case ik: True
    then have split: "[i ..< Suc k] = [i ..< k] @ [k]" by simp
    consider "k \<le> t" | "k = Suc t" | "Suc t < k" by linarith
    then show ?thesis
    proof cases
      case 1
      then have "\<forall>j \<in> set [i ..< k]. j \<le> t" by auto
      with 1 ik show ?thesis unfolding split by (simp add: takeWhile_append min_def)
    next
      case 2
      then have "\<forall>j \<in> set [i ..< k]. j \<le> t" by auto
      with 2 ik show ?thesis unfolding split by (simp add: takeWhile_append min_def)
    next
      case 3
      show ?thesis
      proof (cases "\<forall>j \<in> set [i ..< k]. j \<le> t")
        case all: True
        have "i = k"
        proof (rule ccontr)
          assume "i \<noteq> k"
          with ik have "k - 1 \<in> set [i ..< k]" by auto
          with all have "k - 1 \<le> t" by blast
          with 3 show False by simp
        qed
        with 3 show ?thesis by simp
      next
        case False
        then obtain j where "j \<in> set [i ..< k]" "\<not> j \<le> t" by blast
        then have "takeWhile (\<lambda>j. j \<le> t) ([i ..< k] @ [k]) = takeWhile (\<lambda>j. j \<le> t) [i ..< k]"
          by (rule takeWhile_append1)
        also have "\<dots> = [i ..< min k (Suc t)]" by (rule Suc.IH)
        also have "\<dots> = [i ..< min (Suc k) (Suc t)]" using 3 by simp
        finally show ?thesis unfolding split .
      qed
    qed
  qed
qed

lemma batch_ids_eq: "batch_ids tot b i = [i ..< min (i + b) (Suc tot)]"
  by (simp add: batch_ids_def takeWhile_le_upt)

lemma successfulPokemon_append:
  "successfulPokemon (xs @ ys) = successfulPokemon xs @ successfulPokemon ys"
  by (simp add: successfulPokemon_def)

lemma fetched_split:
  "i \<le> k \<Longrightarrow> k \<le> j \<Longrightarrow> fetched fetch i k @ fetched fetch k j = fetched fetch i j"
  unfolding fetched_def
  by (metis map_append successfulPokemon_append upt_add_eq_append le_Suc_ex)

lemma updateStats_twice:
  "updateStats ((updateStats (s\<lparr> pokemon := ps \<rparr>))\<lparr> pokemon := qs \<rparr>) = updateStats (s\<lparr> pokemon := qs \<rparr>)"
  by (simp add: updateStats_def)

lemma load_batches_rest:
  assumes "0 < b" and "1 < i"
  shows "load_batches fetch lc tot b i s =
           Some (Normal Undefined,
                 if i \<le> tot
                 then updateStats (s\<lparr> pokemon := pokemon s @ fetched fetch i (Suc tot) \<rparr>)
                 else s)"
  using assms(2)
proof (induction "Suc tot - i" arbitrary: i s rule: less_induct)
  case less
  show ?case
  proof (cases "i \<le> tot")
    case False
    then show ?thesis by (simp add: load_batches.simps)
  next
    case True
    let ?k = "min (i + b) (Suc tot)"
    let ?s1 = "updateStats (s\<lparr> pokemon := pokemon s @ fetched fetch i ?k \<rparr>)"
    from True less.prems
    have step: "load_batches fetch lc tot b i s = load_batches fetch lc tot b (i + b) ?s1"
      by (subst load_batches.simps) (simp add: batch_ids_eq fetched_def Let_def)
    have smaller: "Suc tot - (i + b) < Suc tot - i" and later: "1 < i + b"
      using True assms(1) less.prems by simp_all
    note ih = less.hyps [OF smaller later, of ?s1]
    show ?thesis
    proof (cases "i + b \<le> tot")
      case False
      then have "?k = Suc tot" by simp
      with step ih False True show ?thesis by simp
    next
      case next_batch: True
      then have k: "?k = i + b" by simp
      have "fetched fetch i (i + b) @ fetched fetch (i + b) (Suc tot) = fetched fetch i (Suc tot)"
        using next_batch by (intro fetched_split) simp_all
      with step ih next_batch True k show ?thesis
        by (simp add: updateStats_twice)
    qed
  qed
qed

lemma batch_fetched:
  "successfulPokemon (map (fetchPokemonData fetch) (batch_ids tot b i)) =
     fetched fetch i (min (i + b) (Suc tot))"
  by (simp add: batch_ids_eq fetched_def)

lemma load_batches_first_Throw:
  assumes "1 \<le> tot"
    and "fst (applyFilters lc (updateStats
           (s\<lparr> pokemon := pokemon s @ fetched fetch 1 (min (1 + b) (Suc tot)) \<rparr>))) = Throw e"
  shows "load_batches fetch lc tot b 1 s =
           Some (Throw e, updateStats
             (s\<lparr> pokemon := pokemon s @ fetched fetch 1 (min (1 + b) (Suc tot)) \<rparr>))"
proof -
  let ?s1 = "updateStats (s\<lparr> pokemon := pokemon s @ fetched fetch 1 (min (1 + b) (Suc tot)) \<rparr>)"
  from assms(2) have "applyFilters lc ?s1 = (Throw e, ?s1)"
    by (rule conjunct2 [OF applyFilters_Throw])
  with assms(1) show ?thesis
    by (subst load_batches.simps) (simp only: batch_fetched Let_def if_True prod.case completion.case simp_thms)
qed

lemma load_batches_first_Normal:
  assumes "0 < b" and "1 \<le> tot"
    and "applyFilters lc (updateStats
           (s\<lparr> pokemon := pokemon s @ fetched fetch 1 (min (1 + b) (Suc tot)) \<rparr>)) = (Normal v, s2)"
  shows "load_batches fetch lc tot b 1 s =
           Some (Normal Undefined,
                 if 1 + b \<le> tot
                 then updateStats (s2\<lparr> pokemon := pokemon s2 @ fetched fetch (1 + b) (Suc tot) \<rparr>)
                 else s2)"
proof -
  have later: "1 < 1 + b" using assms(1) by simp
  from assms(2,3) have "load_batches fetch lc tot b 1 s = load_batches fetch lc tot b (1 + b) s2"
    by (subst load_batches.simps) (simp only: batch_fetched Let_def if_True prod.case completion.case simp_thms)
  then show ?thesis
    by (simp only: load_batches_rest [OF assms(1) later])
qed



lemma load_batches_first_returns:
  assumes "0 < b" and "1 \<le> tot"
  shows "load_batches fetch lc tot b 1 s \<noteq> None"
proof (cases "applyFilters lc (updateStats
           (s\<lparr> pokemon := pokemon s @ fetched fetch 1 (min (1 + b) (Suc tot)) \<rparr>))")
  case (Pair c s2)
  show ?thesis
  proof (cases c)
    case (Normal v)
    with Pair load_batches_first_Normal [OF assms, of lc s fetch v s2] show ?thesis by simp
  next
    case (Throw e)
    with Pair load_batches_first_Throw [OF assms(2), of lc s fetch b e] show ?thesis by simp
  qed
qed


lemma fetched_concat:
  "fetched fetch i j =
     concat (map (\<lambda>k. case fetchPokemonData fetch k of Inl e \<Rightarrow> [] | Inr p \<Rightarrow> [p]) [i ..< j])"
proof -
  have "successfulPokemon (map f ks) =
          concat (map (\<lambda>k. case f k of Inl e \<Rightarrow> [] | Inr p \<Rightarrow> [p]) ks)" for f :: "nat \<Rightarrow> error + pokemon" and ks
    by (induction ks) (auto simp: successfulPokemon_def split: sum.splits)
  then show ?thesis by (simp add: fetched_def)
qed

lemma loading_keeps [simp]:
  "pokemon (showLoading s) = pokemon s"
  "currentFilters (showLoading s) = currentFilters s"
  "favorites (showLoading s) = favorites s"
  "console_errors (showLoading s) = console_errors s"
  "el_notification (showLoading s) = el_notification s"
  "filteredPokemon (showLoading s) = filteredPokemon s"
  "pokemon (hideLoading s) = pokemon s"
  "filteredPokemon (hideLoading s) = filteredPokemon s"
  "currentFilters (hideLoading s) = currentFilters s"
  "favorites (hideLoading s) = favorites s"
  "console_errors (hideLoading s) = console_errors s"
  "el_notification (hideLoading s) = el_notification s"
  "isLoading (hideLoading s) = False"
  "console_errors (updateStats s) = console_errors s"
  "el_notification (updateStats s) = el_notification s"
  by (simp_all add: showLoading_def hideLoading_def updateStats_def)



lemma loadPokemonWith_Normal:
  assumes "0 < b" and "1 \<le> tot"
    and "applyFilters lc (updateStats
           ((showLoading s)\<lparr> pokemon := pokemon s @ fetched fetch 1 (min (1 + b) (Suc tot)) \<rparr>))
         = (Normal v, s2)"
  shows "loadPokemonWith fetch lc tot b s =
           Some (Normal Undefined,
                 hideLoading
                   (if 1 + b \<le> tot
                    then updateStats (s2\<lparr> pokemon := pokemon s2 @ fetched fetch (1 + b) (Suc tot) \<rparr>)
                    else s2))"
  using load_batches_first_Normal [OF assms(1,2), of lc "showLoading s" fetch v s2] assms(3)
  by (simp add: loadPokemonWith_def)







subsection \<open>The filtered set after loading\<close>

lemma applyFilters_other_key:
  assumes "f_sort (currentFilters s) \<noteq> ''type''"
  shows "fst (applyFilters lc s) = Normal Undefined"
proof (cases "filter_and_sort lc (pokemon s) (currentFilters s) (favorites s)")
  case (Inl e)
  from filter_and_sort_Inl [OF Inl] assms show ?thesis by simp
next
  case (Inr out)
  then show ?thesis by (simp add: applyFilters_fst)
qed

lemma filter_and_sort_unfiltered:
  assumes "f_search cf = []" and "f_type cf = ''all''" and "\<not> f_showFavorites cf"
    and "filter_and_sort lc ps cf fv = Inr out"
  shows "length out = length ps"
  using assms
  by (simp add: filter_and_sort_def Let_def searchFilter_def typeFilter_def favoritesFilter_def
      sort_by_length)

lemma perPage_keeps [simp]:
  "pokemonPerPage (toggleLoadMore s) = pokemonPerPage s"
  "pokemonPerPage (updateStats s) = pokemonPerPage s"
  "pokemonPerPage (renderPokemon s) = pokemonPerPage s"
  by (simp_all add: toggleLoadMore_def updateStats_def renderPokemon_def Let_def)

lemma applyFilters_loadMore:
  assumes "applyFilters lc s = (Normal v, s')"
  shows "el_loadMore_display s' = page_less 1 (totalPages s')"
    and "pokemonPerPage s' = pokemonPerPage s"
proof -
  from assms obtain out where
    s': "s' = toggleLoadMore (updateStats (renderPokemon (s\<lparr> filteredPokemon := out, currentPage := 1 \<rparr>)))"
    by (cases "filter_and_sort lc (pokemon s) (currentFilters s) (favorites s)")
       (auto simp: applyFilters_def)
  let ?x = "updateStats (renderPokemon (s\<lparr> filteredPokemon := out, currentPage := 1 \<rparr>))"
  have "totalPages (toggleLoadMore ?x) = totalPages ?x"
    by (simp add: totalPages_def)
  moreover have "el_loadMore_display (toggleLoadMore ?x) = page_less (currentPage ?x) (totalPages ?x)"
    by (simp add: toggleLoadMore_def)
  moreover have "currentPage ?x = 1"
    by simp
  ultimately show "el_loadMore_display s' = page_less 1 (totalPages s')"
    by (simp add: s')
  show "pokemonPerPage s' = pokemonPerPage s"
    by (simp add: s')
qed

lemma fetched_fetch_all:
  "fetched fetch_all i j = map (\<lambda>k. transformPokemonData (sample_payload k)) [i ..< j]"
proof -
  have "concat (map (\<lambda>k. [f k]) ks) = map f ks" for f :: "nat \<Rightarrow> pokemon" and ks
    by (induction ks) simp_all
  then show ?thesis
    by (simp add: fetched_concat fetchPokemonData_def fetch_all_def)
qed

text \<open>
  C5. \<open>loadPokemon\<close> calls \<open>applyFilters\<close> after the first batch only. When all 151
  requests succeed, the state after loading holds 151 records and the counter of the page
  says so, but the filtered set holds the 20 records of the first batch and the load-more
  button is hidden, while filtering the 151 records anew gives 151.
\<close>

theorem loadPokemon_shows_first_batch_only:
  "map_option (\<lambda>r. (length (pokemon (snd r)), length (filteredPokemon (snd r)),
                      el_totalCount (snd r), el_showingCount (snd r), el_loadMore_display (snd r)))
     (loadPokemon fetch_all compare_codes fresh) = Some (151, 20, 151, 20, False) \<and>
   map_option (\<lambda>r. map_sum (\<lambda>e. e) length
                 (filter_and_sort compare_codes (pokemon (snd r)) (currentFilters (snd r))
                    (favorites (snd r))))
     (loadPokemon fetch_all compare_codes fresh) = Some (Inr 151)"
proof -
  let ?s1 = "updateStats ((showLoading fresh)
               \<lparr> pokemon := pokemon fresh @ fetched fetch_all 1 (min (1 + 20) (Suc 151)) \<rparr>)"
  let ?s2 = "snd (applyFilters compare_codes ?s1)"
  let ?s3 = "updateStats (?s2\<lparr> pokemon := pokemon ?s2 @ fetched fetch_all (1 + 20) (Suc 151) \<rparr>)"
  have cf: "currentFilters ?s1 = with_filters [] ''all'' ''number'' False"
    by (simp add: fresh_def constructor_def with_filters_def)
  then have "fst (applyFilters compare_codes ?s1) = Normal Undefined"
    by (intro applyFilters_other_key) (simp add: with_filters_def)
  then have af: "applyFilters compare_codes ?s1 = (Normal Undefined, ?s2)"
    by (metis prod.collapse)
  have "loadPokemonWith fetch_all compare_codes 151 20 fresh =
          Some (Normal Undefined, hideLoading (if 1 + 20 \<le> (151::nat) then ?s3 else ?s2))"
    by (rule loadPokemonWith_Normal [OF _ _ af]) simp_all
  then have run: "loadPokemon fetch_all compare_codes fresh = Some (Normal Undefined, hideLoading ?s3)"
    by (simp add: loadPokemon_def)
  have first: "length (pokemon ?s1) = 20"
    by (simp add: fetched_fetch_all fresh_def constructor_def)
  have shown: "length (filteredPokemon ?s2) = 20"
    using filter_and_sort_unfiltered [OF _ _ _ applyFilters_Normal(1) [OF af]] first cf
    by (simp add: with_filters_def)
  have everything: "length (pokemon ?s3) = 151"
    by (simp add: applyFilters_keeps fetched_fetch_all fresh_def constructor_def)
  have per: "pokemonPerPage ?s2 = 20"
    using applyFilters_loadMore(2) [OF af] by (simp add: fresh_def constructor_def showLoading_def)
  have more: "el_loadMore_display ?s2 = False"
    using applyFilters_loadMore(1) [OF af] shown per by (simp add: totalPages_def)
  have counts: "el_totalCount ?s3 = 151" "el_showingCount ?s3 = 20" "el_loadMore_display ?s3 = False"
    using everything shown more by (simp_all add: updateStats_def)
  have cf3: "currentFilters ?s3 = with_filters [] ''all'' ''number'' False"
    by (simp add: applyFilters_keeps fresh_def constructor_def with_filters_def)
  have "fst (applyFilters compare_codes ?s3) = Normal Undefined"
    using cf3 by (intro applyFilters_other_key) (simp add: with_filters_def)
  then obtain out where out: "filter_and_sort compare_codes (pokemon ?s3) (currentFilters ?s3)
                                 (favorites ?s3) = Inr out"
    by (cases "filter_and_sort compare_codes (pokemon ?s3) (currentFilters ?s3) (favorites ?s3)")
       (simp_all add: applyFilters_fst)
  have "length out = length (pokemon ?s3)"
    using cf3 by (intro filter_and_sort_unfiltered [OF _ _ _ out]) (simp_all add: with_filters_def)
  with out everything have again: "map_sum (\<lambda>e. e) length
      (filter_and_sort compare_codes (pokemon ?s3) (currentFilters ?s3) (favorites ?s3)) = Inr 151"
    by simp
  have sizes: "length (pokemon (hideLoading ?s3)) = 151" "length (filteredPokemon (hideLoading ?s3)) = 20"
    using everything shown by simp_all
  have view: "el_totalCount (hideLoading ?s3) = 151" "el_showingCount (hideLoading ?s3) = 20"
    "el_loadMore_display (hideLoading ?s3) = False"
    using counts by (simp_all add: hideLoading_def)
  have again': "map_sum (\<lambda>e. e) length
      (filter_and_sort compare_codes (pokemon (hideLoading ?s3)) (currentFilters (hideLoading ?s3))
         (favorites (hideLoading ?s3))) = Inr 151"
    using again by simp
  show ?thesis
    unfolding run using sizes view again' by simp
qed

end
